theory Spec2Isabelle
  imports Complex_Main
begin

section \<open>Deep Q-Learning for the Lunar Lander: the learning loop\<close>

text \<open>
  The development embeds the core of the notebook \<^verbatim>\<open>Lunar_Lander.ipynb\<close>: the
  hyperparameters, the experience tuple, the bounded replay buffer, \<^verbatim>\<open>compute_loss\<close>,
  \<^verbatim>\<open>agent_learn\<close> and the training loop.

  Numbers. The tensors of the loss computation hold \<^verbatim>\<open>float32\<close> values: finite
  numbers, the two infinities and NaN, with overflow to infinity; rounding is not
  represented. Rewards, the exploration rate, the weights of the networks and the
  episode averages are Python and NumPy floats that the loop only adds, multiplies by
  constants and compares; they are modelled by \<^typ>\<open>real\<close>. Where NumPy would produce
  NaN for them (the mean of an empty list) the model returns the outcome
  \<open>NonFiniteValue\<close> instead of inventing a number.

  Collaborators. The simulation environment, the Keras forward pass, automatic
  differentiation, the optimizer and the random source are external; they are
  parameters of the model, collected in the record \<open>externals\<close>.
\<close>

subsection \<open>Hyperparameters\<close>

definition MEMORY_SIZE :: nat where
  "MEMORY_SIZE = 100000"

definition GAMMA :: real where
  "GAMMA = 995 / 1000"

definition ALPHA :: real where
  "ALPHA = 1 / 1000"

definition NUM_STEPS_FOR_UPDATE :: nat where
  "NUM_STEPS_FOR_UPDATE = 4"

subsection \<open>Floating-point values\<close>

text \<open>
  A \<^verbatim>\<open>float32\<close> value is a finite number, an infinity or NaN. Operations on
  finite numbers are exact, except that a result whose magnitude reaches the overflow
  threshold of the format, \<open>2\<^sup>1\<^sup>2\<^sup>8 - 2\<^sup>1\<^sup>0\<^sup>3\<close>, is the infinity of its sign; rounding
  and signed zeros are not represented. The infinities and NaN follow IEEE 754: NaN
  is absorbing, \<open>inf - inf\<close>, \<open>0 * inf\<close>, \<open>0 / 0\<close> and \<open>inf / inf\<close> are NaN.
\<close>

datatype float32 = Fin real | PosInf | NegInf | NaN

definition F32_OVERFLOW :: real where
  "F32_OVERFLOW = 2 ^ 128 - 2 ^ 103"

text \<open>The \<^verbatim>\<open>float32\<close> value of a real number.\<close>

definition f32 :: "real \<Rightarrow> float32" where
  "f32 x = (if F32_OVERFLOW \<le> x then PosInf else if x \<le> - F32_OVERFLOW then NegInf else Fin x)"

fun is_finite :: "float32 \<Rightarrow> bool" where
  "is_finite (Fin a) = True"
| "is_finite x = False"

fun fl_neg :: "float32 \<Rightarrow> float32" where
  "fl_neg (Fin a) = Fin (- a)"
| "fl_neg PosInf = NegInf"
| "fl_neg NegInf = PosInf"
| "fl_neg NaN = NaN"

fun fl_add :: "float32 \<Rightarrow> float32 \<Rightarrow> float32" where
  "fl_add NaN y = NaN"
| "fl_add x NaN = NaN"
| "fl_add PosInf NegInf = NaN"
| "fl_add NegInf PosInf = NaN"
| "fl_add PosInf y = PosInf"
| "fl_add x PosInf = PosInf"
| "fl_add NegInf y = NegInf"
| "fl_add x NegInf = NegInf"
| "fl_add (Fin a) (Fin b) = f32 (a + b)"

definition fl_sub :: "float32 \<Rightarrow> float32 \<Rightarrow> float32" where
  "fl_sub x y = fl_add x (fl_neg y)"

fun fl_mul :: "float32 \<Rightarrow> float32 \<Rightarrow> float32" where
  "fl_mul NaN y = NaN"
| "fl_mul x NaN = NaN"
| "fl_mul (Fin a) (Fin b) = f32 (a * b)"
| "fl_mul (Fin a) PosInf = (if a = 0 then NaN else if 0 < a then PosInf else NegInf)"
| "fl_mul (Fin a) NegInf = (if a = 0 then NaN else if 0 < a then NegInf else PosInf)"
| "fl_mul PosInf (Fin b) = (if b = 0 then NaN else if 0 < b then PosInf else NegInf)"
| "fl_mul NegInf (Fin b) = (if b = 0 then NaN else if 0 < b then NegInf else PosInf)"
| "fl_mul PosInf PosInf = PosInf"
| "fl_mul PosInf NegInf = NegInf"
| "fl_mul NegInf PosInf = NegInf"
| "fl_mul NegInf NegInf = PosInf"

fun fl_div :: "float32 \<Rightarrow> float32 \<Rightarrow> float32" where
  "fl_div NaN y = NaN"
| "fl_div x NaN = NaN"
| "fl_div (Fin a) (Fin b) =
     (if b = 0 then (if a = 0 then NaN else if 0 < a then PosInf else NegInf) else f32 (a / b))"
| "fl_div (Fin a) y = Fin 0"
| "fl_div PosInf (Fin b) = (if b < 0 then NegInf else PosInf)"
| "fl_div NegInf (Fin b) = (if b < 0 then PosInf else NegInf)"
| "fl_div x y = NaN"

text \<open>The maximum of two values; a NaN operand makes it NaN.\<close>

fun fl_max :: "float32 \<Rightarrow> float32 \<Rightarrow> float32" where
  "fl_max NaN y = NaN"
| "fl_max x NaN = NaN"
| "fl_max PosInf y = PosInf"
| "fl_max x PosInf = PosInf"
| "fl_max NegInf y = y"
| "fl_max x NegInf = x"
| "fl_max (Fin a) (Fin b) = Fin (max a b)"

subsection \<open>Data\<close>

type_synonym vec = "real list"

type_synonym weights = "real list"

text \<open>
  \<^verbatim>\<open>experience = namedtuple("Experience", ["state", "action", "reward", "next_state", "done"])\<close>
\<close>

record experience =
  state :: vec
  action :: int
  reward :: real
  next_state :: vec
  "done" :: bool

text \<open>
  Outcomes that are not a value: an exception raised by TensorFlow for tensors whose
  shapes do not fit or for an index out of range, a NumPy result that is not a real
  number, and the replay buffer's refusal to sample more than it holds.
\<close>

datatype error = InvalidArgumentError | NonFiniteValue | InsufficientDataError

text \<open>
  A mini-batch is five parallel tensors: states, actions, rewards, next states and done
  values. Actions and done values are stored as floats, as the notebook's tensors are.
  The states are only handed to the networks and stay vectors of reals.
\<close>

type_synonym batch = "vec list \<times> float32 list \<times> float32 list \<times> vec list \<times> float32 list"

text \<open>
  The two Keras models of the notebook are objects whose weights change in place. A
  function that is handed a model is handed a reference to it.
\<close>

datatype model_ref = q_network | target_q_network

text \<open>
  The global variables of the notebook that the learning loop reads and writes. The last
  field is the content of the file \<^verbatim>\<open>lunar_lander_model.h5\<close>: one entry for every
  call of \<^verbatim>\<open>q_network.save\<close>, latest first. The field \<open>rng\<close> is the state of
  Python's random number generator.
\<close>

record ('e, 'o, 'r) globals =
  models :: "model_ref \<Rightarrow> weights"
  optimizer :: 'o
  memory_buffer :: "experience list"
  epsilon :: real
  total_point_history :: "real list"
  total_points :: real
  av_latest_points :: real
  update :: bool
  experiences :: batch
  env :: 'e
  rng :: 'r
  saved_models :: "weights list"

subsection \<open>Statements that read and write the globals and may raise\<close>

type_synonym ('a, 'g) stmt = "'g \<Rightarrow> (error + 'a) \<times> 'g"

definition return_val :: "'a \<Rightarrow> ('a, 'g) stmt" where
  "return_val v g = (Inr v, g)"

definition eval_expr :: "error + 'a \<Rightarrow> ('a, 'g) stmt" where
  "eval_expr r g = (r, g)"

definition and_then :: "('a, 'g) stmt \<Rightarrow> ('a \<Rightarrow> ('b, 'g) stmt) \<Rightarrow> ('b, 'g) stmt" where
  "and_then m f g = (case m g of (Inl e, g') \<Rightarrow> (Inl e, g') | (Inr v, g') \<Rightarrow> f v g')"

definition read_global :: "('g \<Rightarrow> 'a) \<Rightarrow> ('a, 'g) stmt" where
  "read_global f g = (Inr (f g), g)"

definition write_global :: "('g \<Rightarrow> 'g) \<Rightarrow> (unit, 'g) stmt" where
  "write_global f g = (Inr (), f g)"

subsection \<open>Tensor operations\<close>

fun sequence :: "(error + 'a) list \<Rightarrow> error + 'a list" where
  "sequence [] = Inr []"
| "sequence (r # rs) =
     (case r of
        Inl e \<Rightarrow> Inl e
      | Inr v \<Rightarrow> (case sequence rs of Inl e \<Rightarrow> Inl e | Inr vs \<Rightarrow> Inr (v # vs)))"

text \<open>
  \<^verbatim>\<open>tf.reduce_max(t, axis=-1)\<close> on a matrix: the maximum of every row; of an empty
  row it is \<open>-inf\<close>.
\<close>

definition row_max :: "float32 list \<Rightarrow> float32" where
  "row_max row = fold fl_max row NegInf"

definition reduce_max :: "float32 list list \<Rightarrow> float32 list" where
  "reduce_max t = map row_max t"

text \<open>
  A binary operation on two vectors, element by element. Vectors of the same length are
  combined pointwise, a vector of length one is broadcast, any other pair of lengths
  raises.
\<close>

definition elementwise :: "('a \<Rightarrow> 'a \<Rightarrow> 'a) \<Rightarrow> 'a list \<Rightarrow> 'a list \<Rightarrow> error + 'a list" where
  "elementwise f xs ys =
     (if length xs = length ys then Inr (map2 f xs ys)
      else if length xs = 1 then Inr (map (f (hd xs)) ys)
      else if length ys = 1 then Inr (map (\<lambda>x. f x (hd ys)) xs)
      else Inl InvalidArgumentError)"

text \<open>
  \<^verbatim>\<open>tf.cast(x, tf.int32)\<close> of a float: truncation towards zero; a value that is not
  in the range of \<^verbatim>\<open>int32\<close>, an infinity or NaN gives the smallest \<^verbatim>\<open>int32\<close>.
\<close>

definition INT32_MIN :: int where
  "INT32_MIN = - (2 ^ 31)"

definition cast_int32 :: "float32 \<Rightarrow> int" where
  "cast_int32 x =
     (case x of
        Fin r \<Rightarrow>
          (let k = (if 0 \<le> r then \<lfloor>r\<rfloor> else \<lceil>r\<rceil>)
           in if INT32_MIN \<le> k \<and> k < 2 ^ 31 then k else INT32_MIN)
      | PosInf \<Rightarrow> INT32_MIN
      | NegInf \<Rightarrow> INT32_MIN
      | NaN \<Rightarrow> INT32_MIN)"

definition tf_range :: "nat \<Rightarrow> int list" where
  "tf_range n = map int [0..<n]"

text \<open>\<^verbatim>\<open>tf.stack([a, b], axis=1)\<close> of two vectors: the rows \<open>[a\<^sub>j, b\<^sub>j]\<close>.\<close>

definition stack_axis1 :: "int list \<Rightarrow> int list \<Rightarrow> error + (int \<times> int) list" where
  "stack_axis1 a b = (if length a = length b then Inr (zip a b) else Inl InvalidArgumentError)"

text \<open>
  \<^verbatim>\<open>tf.gather_nd(params, indices)\<close> for a matrix and index pairs. An index out of
  range raises (the behaviour on a CPU).
\<close>

definition gather_at :: "float32 list list \<Rightarrow> int \<times> int \<Rightarrow> error + float32" where
  "gather_at params ix =
     (case ix of (i, a) \<Rightarrow>
        if 0 \<le> i \<and> i < int (length params) \<and> 0 \<le> a \<and> a < int (length (params ! nat i))
        then Inr (params ! nat i ! nat a)
        else Inl InvalidArgumentError)"

definition gather_nd :: "float32 list list \<Rightarrow> (int \<times> int) list \<Rightarrow> error + float32 list" where
  "gather_nd params indices = sequence (map (gather_at params) indices)"

text \<open>
  \<^verbatim>\<open>tf.reduce_mean\<close> of a vector: the sum, added up from the left, divided by the
  number of elements; of an empty vector it is \<open>0 / 0\<close>.
\<close>

definition reduce_mean :: "float32 list \<Rightarrow> float32" where
  "reduce_mean xs = fl_div (foldl fl_add (Fin 0) xs) (f32 (real (length xs)))"

text \<open>
  \<^verbatim>\<open>tensorflow.keras.losses.MSE(y_true, y_pred)\<close>: the mean over the last axis of
  the squared differences.
\<close>

definition squared_difference :: "float32 \<Rightarrow> float32 \<Rightarrow> float32" where
  "squared_difference x y = fl_mul (fl_sub x y) (fl_sub x y)"

definition MSE :: "float32 list \<Rightarrow> float32 list \<Rightarrow> error + float32" where
  "MSE y_true y_pred =
     (case elementwise (\<lambda>t p. squared_difference p t) y_true y_pred of
        Inl e \<Rightarrow> Inl e
      | Inr d \<Rightarrow> Inr (reduce_mean d))"

text \<open>
  Calling a Keras model on a batch of inputs: the forward pass \<open>fwd\<close> of the
  architecture, with the model's current weights, on every row. The call reads the
  weights and changes nothing.
\<close>

definition call_model :: "(weights \<Rightarrow> vec \<Rightarrow> float32 list) \<Rightarrow> model_ref \<Rightarrow> vec list
    \<Rightarrow> (float32 list list, ('e, 'o, 'r) globals) stmt" where
  "call_model fwd m xs = read_global (\<lambda>g. map (fwd (models g m)) xs)"

subsection \<open>The loss\<close>

text \<open>
  \<^verbatim>\<open>compute_loss(experiences, gamma, q_network, target_q_network)\<close>, statement by
  statement. The Python float \<open>gamma\<close> and the constant 1 become \<^verbatim>\<open>float32\<close> values
  when they meet a tensor.
\<close>

definition compute_loss :: "(weights \<Rightarrow> vec \<Rightarrow> float32 list) \<Rightarrow> batch \<Rightarrow> real \<Rightarrow> model_ref \<Rightarrow> model_ref
    \<Rightarrow> (float32, ('e, 'o, 'r) globals) stmt" where
  "compute_loss fwd experiences' gamma q_net target_net =
     (case experiences' of (states, actions, rewards, next_states, done_vals) \<Rightarrow>
        and_then (call_model fwd target_net next_states) (\<lambda>target_out.
        and_then (return_val (reduce_max target_out)) (\<lambda>max_qsa.
        and_then (eval_expr (elementwise fl_mul (map (\<lambda>d. fl_sub (f32 1) d) done_vals)
                               (map (\<lambda>m. fl_mul (f32 gamma) m) max_qsa))) (\<lambda>bootstrap.
        and_then (eval_expr (elementwise fl_add rewards bootstrap)) (\<lambda>y_targets.
        and_then (call_model fwd q_net states) (\<lambda>q_values.
        and_then (eval_expr (stack_axis1 (tf_range (length q_values)) (map cast_int32 actions))) (\<lambda>indices.
        and_then (eval_expr (gather_nd q_values indices)) (\<lambda>q_values.
        and_then (eval_expr (MSE y_targets q_values)) (\<lambda>loss.
        return_val loss)))))))))"

subsection \<open>The replay buffer\<close>

text \<open>
  \<^verbatim>\<open>memory_buffer = deque(maxlen=MEMORY_SIZE)\<close>. Appending to a bounded deque adds
  the element on the right and, when the deque is then longer than \<open>maxlen\<close>, removes
  the leftmost element.
\<close>

definition deque_append :: "nat \<Rightarrow> 'a list \<Rightarrow> 'a \<Rightarrow> 'a list" where
  "deque_append maxlen d x = (let d' = d @ [x] in if maxlen < length d' then tl d' else d')"

text \<open>The buffer after appending a sequence of elements, one by one, from the left.\<close>

definition deque_extend :: "nat \<Rightarrow> 'a list \<Rightarrow> 'a list \<Rightarrow> 'a list" where
  "deque_extend maxlen d xs = foldl (deque_append maxlen) d xs"

subsection \<open>External collaborators and configuration\<close>

text \<open>
  The parts the notebook takes from elsewhere: the forward pass of the network
  architecture, the gradient of a loss with respect to the primary weights
  (\<^verbatim>\<open>tape.gradient\<close>), the optimizer's step (\<^verbatim>\<open>optimizer.apply_gradients\<close>), the
  environment (\<^verbatim>\<open>env.reset\<close>, \<^verbatim>\<open>env.step\<close>), the choice of an action
  (\<^verbatim>\<open>utils.get_action\<close>), a draw of a natural number below a bound from the random
  source, and the two constants of \<^verbatim>\<open>utils\<close> whose values the notebook does not
  show: the mini-batch size and the soft-update rate.
\<close>

record ('e, 'o, 'r) externals =
  forward :: "weights \<Rightarrow> vec \<Rightarrow> float32 list"
  tape_gradient :: "(weights \<Rightarrow> error + float32) \<Rightarrow> weights \<Rightarrow> weights"
  apply_gradients :: "'o \<Rightarrow> weights \<Rightarrow> weights \<Rightarrow> 'o \<times> weights"
  env_reset :: "'e \<Rightarrow> vec \<times> 'e"
  env_step :: "int \<Rightarrow> 'e \<Rightarrow> (vec \<times> real \<times> bool) \<times> 'e"
  get_action :: "float32 list list \<Rightarrow> real \<Rightarrow> 'r \<Rightarrow> int \<times> 'r"
  random_below :: "nat \<Rightarrow> 'r \<Rightarrow> nat \<times> 'r"
  BATCH_SIZE :: nat
  TAU :: real

subsection \<open>The helpers of \<^verbatim>\<open>utils\<close>\<close>

text \<open>
  Modelled from the spec: \<^verbatim>\<open>utils.get_new_eps\<close> and its two constants are not among
  the sources. The spec gives the decay rule \<open>epsilon = max(epsilon_min, decay_rate * epsilon)\<close>
  with \<open>epsilon_min = 0.01\<close> and \<open>decay_rate = 0.995\<close>.
\<close>

definition EPSILON_MIN :: real where
  "EPSILON_MIN = 1 / 100"

definition EPSILON_DECAY :: real where
  "EPSILON_DECAY = 995 / 1000"

definition get_new_eps :: "real \<Rightarrow> real" where
  "get_new_eps eps = max EPSILON_MIN (EPSILON_DECAY * eps)"

text \<open>
  Modelled from the spec: \<^verbatim>\<open>utils.check_update_conditions\<close> is not among the sources.
  The spec's step loop increments the step counter before the update check, so at the
  check of the time step with loop index \<open>t\<close> (counted from 0) the step counter is
  \<open>t + 1\<close>, the number of steps taken in the episode. The spec's update check: the step
  counter modulo the update interval is zero and the buffer holds at least a mini-batch.
\<close>

definition check_update_conditions :: "nat \<Rightarrow> nat \<Rightarrow> 'a list \<Rightarrow> nat \<Rightarrow> bool" where
  "check_update_conditions t num_steps_upd buffer batch_size \<longleftrightarrow>
     (t + 1) mod num_steps_upd = 0 \<and> batch_size \<le> length buffer"

text \<open>
  Modelled from the spec: \<^verbatim>\<open>utils.get_experiences\<close> is not among the sources. The
  spec's \<open>sample(batch_size)\<close> fails with \<open>InsufficientDataError\<close> when the buffer
  holds fewer than \<open>batch_size\<close> elements; otherwise it returns \<open>batch_size\<close> elements
  drawn uniformly at random, each index distinct, as five parallel sequences.

  The draws: \<open>draw_numbers\<close> asks the random source for \<open>k\<close> numbers, the first below
  \<open>m\<close>, the next below \<open>m - 1\<close>, and so on. \<open>select_positions\<close> turns the numbers into
  positions: each number picks the position at that index of the pool of positions not
  yet chosen, and the position leaves the pool.
\<close>

fun draw_numbers :: "(nat \<Rightarrow> 'r \<Rightarrow> nat \<times> 'r) \<Rightarrow> nat \<Rightarrow> nat \<Rightarrow> 'r \<Rightarrow> nat list \<times> 'r" where
  "draw_numbers rnd 0 m r = ([], r)"
| "draw_numbers rnd (Suc k) m r =
     (case rnd m r of (n, r1) \<Rightarrow>
        (case draw_numbers rnd k (m - 1) r1 of (ns, r2) \<Rightarrow> (n mod m # ns, r2)))"

fun select_positions :: "nat list \<Rightarrow> nat list \<Rightarrow> nat list" where
  "select_positions [] pool = []"
| "select_positions (n # ns) pool =
     pool ! n # select_positions ns (take n pool @ drop (Suc n) pool)"

definition draw_distinct :: "(nat \<Rightarrow> 'r \<Rightarrow> nat \<times> 'r) \<Rightarrow> nat \<Rightarrow> nat list \<Rightarrow> 'r \<Rightarrow> nat list \<times> 'r" where
  "draw_distinct rnd k pool r =
     (case draw_numbers rnd k (length pool) r of (ns, r') \<Rightarrow> (select_positions ns pool, r'))"



text \<open>
  The five tensors of a list of experiences. Actions, rewards and done flags become
  \<^verbatim>\<open>float32\<close> values.
\<close>

definition unzip_experiences :: "experience list \<Rightarrow> batch" where
  "unzip_experiences es =
     (map state es, map (\<lambda>e. f32 (of_int (action e))) es, map (\<lambda>e. f32 (reward e)) es,
      map next_state es, map (\<lambda>e. f32 (of_bool (done e))) es)"

definition sample :: "(nat \<Rightarrow> 'r \<Rightarrow> nat \<times> 'r) \<Rightarrow> nat \<Rightarrow> experience list \<Rightarrow> 'r \<Rightarrow> error + (batch \<times> 'r)" where
  "sample rnd batch_size buffer r =
     (if length buffer < batch_size then Inl InsufficientDataError
      else (case draw_distinct rnd batch_size [0..<length buffer] r of
              (positions, r') \<Rightarrow> Inr (unzip_experiences (map (\<lambda>i. buffer ! i) positions), r')))"

definition get_experiences :: "('e, 'o, 'r) externals \<Rightarrow> (batch, ('e, 'o, 'r) globals) stmt" where
  "get_experiences ext g =
     (case sample (random_below ext) (BATCH_SIZE ext) (memory_buffer g) (rng g) of
        Inl e \<Rightarrow> (Inl e, g)
      | Inr (b, r') \<Rightarrow> (Inr b, g\<lparr>rng := r'\<rparr>))"

text \<open>
  Modelled from the spec: \<^verbatim>\<open>utils.update_target_network\<close> is not among the sources.
  The spec's soft update: \<open>target_param = tau * primary_param + (1 - tau) * target_param\<close>,
  element-wise across every parameter.
\<close>

definition soft_update :: "real \<Rightarrow> weights \<Rightarrow> weights \<Rightarrow> weights" where
  "soft_update tau primary target = map2 (\<lambda>p t. tau * p + (1 - tau) * t) primary target"

definition update_target_network :: "real \<Rightarrow> model_ref \<Rightarrow> model_ref \<Rightarrow> (unit, ('e, 'o, 'r) globals) stmt" where
  "update_target_network tau q_net target_net =
     write_global (\<lambda>g. g\<lparr>models := (models g)(target_net := soft_update tau (models g q_net) (models g target_net))\<rparr>)"

subsection \<open>The learning step\<close>

text \<open>
  \<^verbatim>\<open>agent_learn(experiences, gamma)\<close>: the loss is computed under the gradient tape,
  which records it as a function of the primary weights; the gradient is applied to the
  primary network by the optimizer; then the target network is moved towards the
  primary network.
\<close>

definition loss_of_weights :: "('e, 'o, 'r) externals \<Rightarrow> batch \<Rightarrow> real \<Rightarrow> ('e, 'o, 'r) globals \<Rightarrow> weights \<Rightarrow> error + float32" where
  "loss_of_weights ext experiences' gamma g w =
     fst (compute_loss (forward ext) experiences' gamma q_network target_q_network
            (g\<lparr>models := (models g)(q_network := w)\<rparr>))"

definition apply_optimizer :: "('e, 'o, 'r) externals \<Rightarrow> weights \<Rightarrow> (unit, ('e, 'o, 'r) globals) stmt" where
  "apply_optimizer ext gradients =
     write_global (\<lambda>g.
       (case apply_gradients ext (optimizer g) gradients (models g q_network) of
          (opt', w') \<Rightarrow> g\<lparr>optimizer := opt', models := (models g)(q_network := w')\<rparr>))"

definition agent_learn :: "('e, 'o, 'r) externals \<Rightarrow> batch \<Rightarrow> real \<Rightarrow> (unit, ('e, 'o, 'r) globals) stmt" where
  "agent_learn ext experiences' gamma =
     and_then (compute_loss (forward ext) experiences' gamma q_network target_q_network) (\<lambda>loss.
     and_then (read_global (\<lambda>g. tape_gradient ext (loss_of_weights ext experiences' gamma g) (models g q_network))) (\<lambda>gradients.
     and_then (apply_optimizer ext gradients) (\<lambda>_.
     update_target_network (TAU ext) q_network target_q_network)))"

subsection \<open>The training loop\<close>

definition num_episodes :: nat where
  "num_episodes = 2000"

definition max_num_timesteps :: nat where
  "max_num_timesteps = 1000"

definition num_p_av :: nat where
  "num_p_av = 100"

text \<open>The slice \<^verbatim>\<open>xs[-n:]\<close> of a Python list, for \<open>n \<ge> 0\<close>.\<close>

definition slice_last :: "nat \<Rightarrow> 'a list \<Rightarrow> 'a list" where
  "slice_last n xs = (if n = 0 then xs else drop (length xs - n) xs)"

text \<open>\<^verbatim>\<open>np.mean\<close> of a list; of an empty list it is not a number.\<close>

definition np_mean :: "real list \<Rightarrow> error + real" where
  "np_mean xs = (if xs = [] then Inl NonFiniteValue else Inr (sum_list xs / real (length xs)))"

definition choose_action :: "('e, 'o, 'r) externals \<Rightarrow> float32 list list \<Rightarrow> (int, ('e, 'o, 'r) globals) stmt" where
  "choose_action ext q_values g =
     (case get_action ext q_values (epsilon g) (rng g) of (a, r') \<Rightarrow> (Inr a, g\<lparr>rng := r'\<rparr>))"

definition step_env :: "('e, 'o, 'r) externals \<Rightarrow> int \<Rightarrow> (vec \<times> real \<times> bool, ('e, 'o, 'r) globals) stmt" where
  "step_env ext a g = (case env_step ext a (env g) of (res, e') \<Rightarrow> (Inr res, g\<lparr>env := e'\<rparr>))"

definition reset_env :: "('e, 'o, 'r) externals \<Rightarrow> (vec, ('e, 'o, 'r) globals) stmt" where
  "reset_env ext g = (case env_reset ext (env g) of (s, e') \<Rightarrow> (Inr s, g\<lparr>env := e'\<rparr>))"

text \<open>
  The statements before the loops: the history, the exploration rate, the empty buffer
  and the copy of the primary weights into the target network.
\<close>

definition initialise :: "(unit, ('e, 'o, 'r) globals) stmt" where
  "initialise =
     write_global (\<lambda>g. g\<lparr>total_point_history := [], epsilon := 1, memory_buffer := [],
                           models := (models g)(target_q_network := models g q_network)\<rparr>)"

text \<open>
  The sampling and learning of one time step, run when \<open>update\<close> is true.
\<close>

definition learning_step :: "('e, 'o, 'r) externals \<Rightarrow> (unit, ('e, 'o, 'r) globals) stmt" where
  "learning_step ext =
     and_then (get_experiences ext) (\<lambda>b.
     and_then (write_global (\<lambda>g. g\<lparr>experiences := b\<rparr>)) (\<lambda>_.
     agent_learn ext b GAMMA))"

text \<open>
  The body of the loop \<^verbatim>\<open>for t in range(max_num_timesteps)\<close> up to the test of
  \<open>done\<close>. It returns the next state, the reward and \<open>done\<close>.
\<close>

definition time_step :: "('e, 'o, 'r) externals \<Rightarrow> nat \<Rightarrow> vec \<Rightarrow> (vec \<times> real \<times> bool, ('e, 'o, 'r) globals) stmt" where
  "time_step ext t s =
     and_then (call_model (forward ext) q_network [s]) (\<lambda>q_values.
     and_then (choose_action ext q_values) (\<lambda>a.
     and_then (step_env ext a) (\<lambda>(s', r, d).
     and_then (write_global (\<lambda>g. g\<lparr>memory_buffer := deque_append MEMORY_SIZE (memory_buffer g)
         \<lparr>state = s, action = a, reward = r, next_state = s', done = d\<rparr>\<rparr>)) (\<lambda>_.
     and_then (write_global (\<lambda>g. g\<lparr>update :=
         check_update_conditions t NUM_STEPS_FOR_UPDATE (memory_buffer g) (BATCH_SIZE ext)\<rparr>)) (\<lambda>_.
     and_then (read_global update) (\<lambda>u.
     and_then (if u then learning_step ext else return_val ()) (\<lambda>_.
     and_then (write_global (\<lambda>g. g\<lparr>total_points := total_points g + r\<rparr>)) (\<lambda>_.
     return_val (s', r, d)))))))))"

text \<open>
  The loop over the time steps: \<open>n\<close> iterations remain, \<open>t\<close> is the loop variable.
  The loop ends when the range is exhausted or after a step with \<open>done\<close>.
\<close>

fun step_loop :: "('e, 'o, 'r) externals \<Rightarrow> nat \<Rightarrow> nat \<Rightarrow> vec \<Rightarrow> (unit, ('e, 'o, 'r) globals) stmt" where
  "step_loop ext 0 t s g = return_val () g"
| "step_loop ext (Suc n) t s g =
     and_then (time_step ext t s)
       (\<lambda>(s', r, d). if d then return_val () else step_loop ext n (Suc t) s') g"

text \<open>
  One episode, up to the test for convergence: it returns whether the average of the
  latest points has reached 200.
\<close>

definition episode :: "('e, 'o, 'r) externals \<Rightarrow> (bool, ('e, 'o, 'r) globals) stmt" where
  "episode ext =
     and_then (reset_env ext) (\<lambda>s.
     and_then (write_global (\<lambda>g. g\<lparr>total_points := 0\<rparr>)) (\<lambda>_.
     and_then (step_loop ext max_num_timesteps 0 s) (\<lambda>_.
     and_then (write_global (\<lambda>g. g\<lparr>total_point_history := total_point_history g @ [total_points g]\<rparr>)) (\<lambda>_.
     and_then (\<lambda>g. eval_expr (np_mean (slice_last num_p_av (total_point_history g))) g) (\<lambda>av.
     and_then (write_global (\<lambda>g. g\<lparr>av_latest_points := av\<rparr>)) (\<lambda>_.
     and_then (write_global (\<lambda>g. g\<lparr>epsilon := get_new_eps (epsilon g)\<rparr>)) (\<lambda>_.
     read_global (\<lambda>g. 200 \<le> av_latest_points g))))))))"

text \<open>\<^verbatim>\<open>q_network.save('lunar_lander_model.h5')\<close>\<close>

definition save_model :: "(unit, ('e, 'o, 'r) globals) stmt" where
  "save_model = write_global (\<lambda>g. g\<lparr>saved_models := models g q_network # saved_models g\<rparr>)"

text \<open>
  The loop over the episodes: \<open>n\<close> iterations remain. After an episode that reaches the
  average the model is saved and the loop ends.
\<close>

fun episode_loop :: "('e, 'o, 'r) externals \<Rightarrow> nat \<Rightarrow> (unit, ('e, 'o, 'r) globals) stmt" where
  "episode_loop ext 0 g = return_val () g"
| "episode_loop ext (Suc n) g =
     and_then (episode ext) (\<lambda>solved. if solved then save_model else episode_loop ext n) g"

definition train :: "('e, 'o, 'r) externals \<Rightarrow> (unit, ('e, 'o, 'r) globals) stmt" where
  "train ext = and_then initialise (\<lambda>_. episode_loop ext num_episodes)"

subsection \<open>The loss as the spec words it\<close>

text \<open>
  The target of a transition: the reward when the episode ended with it, otherwise the
  reward plus the discounted maximum of the target network's values for the next state.
\<close>

definition bootstrapped_target :: "real \<Rightarrow> (vec \<Rightarrow> float32 list) \<Rightarrow> experience \<Rightarrow> float32" where
  "bootstrapped_target gamma target_net e =
     (if done e then f32 (reward e)
      else fl_add (f32 (reward e)) (fl_mul (f32 gamma) (row_max (target_net (next_state e)))))"

text \<open>The primary network's value for the action that was taken.\<close>

definition predicted_value :: "(vec \<Rightarrow> float32 list) \<Rightarrow> experience \<Rightarrow> float32" where
  "predicted_value net e = net (state e) ! nat (action e)"

text \<open>The mean squared error of targets and predictions over a batch.\<close>

definition mean_squared_error :: "(experience \<Rightarrow> float32) \<Rightarrow> (experience \<Rightarrow> float32) \<Rightarrow> experience list \<Rightarrow> float32" where
  "mean_squared_error y q es = reduce_mean (map (\<lambda>e. squared_difference (q e) (y e)) es)"

text \<open>
  The target of a transition as the notebook computes it: the bootstrap term is
  multiplied by \<open>1 - done\<close> and added to the reward.
\<close>

definition masked_target :: "real \<Rightarrow> (vec \<Rightarrow> float32 list) \<Rightarrow> experience \<Rightarrow> float32" where
  "masked_target gamma target_net e =
     fl_add (f32 (reward e))
       (fl_mul (fl_sub (f32 1) (f32 (of_bool (done e))))
          (fl_mul (f32 gamma) (row_max (target_net (next_state e)))))"

subsection \<open>A deterministic stub\<close>

text \<open>
  Collaborators for concrete runs: a network that answers \<open>[1, 2, 3, 4]\<close> for every
  state, a gradient of ones, an optimizer that subtracts the gradient, an environment
  that ends every episode on its first step with a fixed reward (with the reward 200 it
  is the environment of the spec's end-to-end test), the action 0, and a random source
  that counts upwards. The mini-batch size and the reward are parameters. The state of
  the environment is a number, which this environment leaves alone.
\<close>

definition stub :: "nat \<Rightarrow> real \<Rightarrow> (nat, unit, nat) externals" where
  "stub batch_size rew =
     \<lparr>forward = (\<lambda>w s. [Fin 1, Fin 2, Fin 3, Fin 4]),
      tape_gradient = (\<lambda>f w. map (\<lambda>_. 1) w),
      apply_gradients = (\<lambda>opt grads w. (opt, map2 (\<lambda>x dx. x - dx) w grads)),
      env_reset = (\<lambda>e. ([0], e)),
      env_step = (\<lambda>a e. (([0], rew, True), e)),
      get_action = (\<lambda>q eps r. (0, r)),
      random_below = (\<lambda>n r. (r, Suc r)),
      BATCH_SIZE = batch_size,
      TAU = 1 / 10\<rparr>"

definition start :: "(nat, unit, nat) globals" where
  "start =
     \<lparr>models = (\<lambda>m. [0, 0]), optimizer = (), memory_buffer = [], epsilon = 1,
      total_point_history = [], total_points = 0, av_latest_points = 0, update = False,
      experiences = ([], [], [], [], []), env = 0, rng = 0, saved_models = []\<rparr>"

text \<open>
  The stub with mini-batches of one experience, an environment whose episodes last
  four steps (its state counts the steps of the episode), and an action policy that
  answers 7, an action the network has no value for.
\<close>

definition stub_wrong_action :: "(nat, unit, nat) externals" where
  "stub_wrong_action =
     (stub 1 200)\<lparr>env_reset := (\<lambda>e. ([0], 0)),
                  env_step := (\<lambda>a e. (([0], 200, 3 \<le> e), Suc e)),
                  get_action := (\<lambda>q eps r. (7, r))\<rparr>"

subsection \<open>Program points of a time step\<close>

text \<open>
  Names for what a time step, started in the globals \<open>g\<close> with the current state \<open>s\<close>,
  has computed when it reaches the test \<^verbatim>\<open>if update:\<close>: the action chosen, the answer
  of \<^verbatim>\<open>env.step\<close>, the experience tuple built from them, and the globals at that
  point.
\<close>

definition step_action :: "('e, 'o, 'r) externals \<Rightarrow> vec \<Rightarrow> ('e, 'o, 'r) globals \<Rightarrow> int" where
  "step_action ext s g =
     fst (get_action ext [forward ext (models g q_network) s] (epsilon g) (rng g))"

definition step_outcome :: "('e, 'o, 'r) externals \<Rightarrow> vec \<Rightarrow> ('e, 'o, 'r) globals \<Rightarrow> vec \<times> real \<times> bool" where
  "step_outcome ext s g = fst (env_step ext (step_action ext s g) (env g))"

definition step_experience :: "('e, 'o, 'r) externals \<Rightarrow> vec \<Rightarrow> ('e, 'o, 'r) globals \<Rightarrow> experience" where
  "step_experience ext s g =
     (case step_outcome ext s g of (s', r, d) \<Rightarrow>
        \<lparr>state = s, action = step_action ext s g, reward = r, next_state = s', done = d\<rparr>)"

definition before_learning :: "('e, 'o, 'r) externals \<Rightarrow> nat \<Rightarrow> vec \<Rightarrow> ('e, 'o, 'r) globals \<Rightarrow> ('e, 'o, 'r) globals" where
  "before_learning ext t s g =
     g\<lparr>rng := snd (get_action ext [forward ext (models g q_network) s] (epsilon g) (rng g)),
       env := snd (env_step ext (step_action ext s g) (env g)),
       memory_buffer := deque_append MEMORY_SIZE (memory_buffer g) (step_experience ext s g),
       update := check_update_conditions t NUM_STEPS_FOR_UPDATE
                   (deque_append MEMORY_SIZE (memory_buffer g) (step_experience ext s g))
                   (BATCH_SIZE ext)\<rparr>"

text \<open>
  The positions of the buffer that a sampling in the globals \<open>g\<close> draws.
\<close>

definition sampled_positions :: "('e, 'o, 'r) externals \<Rightarrow> ('e, 'o, 'r) globals \<Rightarrow> nat list" where
  "sampled_positions ext g =
     fst (draw_distinct (random_below ext) (BATCH_SIZE ext) [0..<length (memory_buffer g)] (rng g))"

subsection \<open>Program points and observations of an episode\<close>

text \<open>
  The state the environment hands out at the start of an episode, and the globals when
  the loop over the time steps is entered.
\<close>

definition first_state :: "('e, 'o, 'r) externals \<Rightarrow> ('e, 'o, 'r) globals \<Rightarrow> vec" where
  "first_state ext g = fst (env_reset ext (env g))"

definition episode_begin :: "('e, 'o, 'r) externals \<Rightarrow> ('e, 'o, 'r) globals \<Rightarrow> ('e, 'o, 'r) globals" where
  "episode_begin ext g = g\<lparr>env := snd (env_reset ext (env g)), total_points := 0\<rparr>"

text \<open>
  The rewards that \<^verbatim>\<open>env.step\<close> returns, step by step, while the loop over the time
  steps runs; for an episode; and, episode by episode, for the loop over the episodes.
\<close>

fun step_rewards :: "('e, 'o, 'r) externals \<Rightarrow> nat \<Rightarrow> nat \<Rightarrow> vec \<Rightarrow> ('e, 'o, 'r) globals \<Rightarrow> real list" where
  "step_rewards ext 0 t s g = []"
| "step_rewards ext (Suc n) t s g =
     (case time_step ext t s g of
        (Inl e, g') \<Rightarrow> []
      | (Inr (s', r, d), g') \<Rightarrow>
          fst (snd (step_outcome ext s g)) # (if d then [] else step_rewards ext n (Suc t) s' g'))"

definition episode_rewards :: "('e, 'o, 'r) externals \<Rightarrow> ('e, 'o, 'r) globals \<Rightarrow> real list" where
  "episode_rewards ext g =
     step_rewards ext max_num_timesteps 0 (first_state ext g) (episode_begin ext g)"

fun loop_rewards :: "('e, 'o, 'r) externals \<Rightarrow> nat \<Rightarrow> ('e, 'o, 'r) globals \<Rightarrow> real list list" where
  "loop_rewards ext 0 g = []"
| "loop_rewards ext (Suc n) g =
     (case episode ext g of
        (Inl e, g') \<Rightarrow> []
      | (Inr solved, g') \<Rightarrow>
          episode_rewards ext g # (if solved then [] else loop_rewards ext n g'))"

text \<open>
  The moving average as the spec words it: the mean of the most recent
  \<open>min(100, length)\<close> entries of the history.
\<close>

definition moving_average :: "real list \<Rightarrow> real" where
  "moving_average h = sum_list (drop (length h - 100) h) / real (min 100 (length h))"

subsection \<open>Sequences of learning steps\<close>

text \<open>
  \<open>agent_learn\<close> called on one batch after the other, and the primary weights after
  each of these calls.
\<close>

fun learn_all :: "('e, 'o, 'r) externals \<Rightarrow> batch list \<Rightarrow> (unit, ('e, 'o, 'r) globals) stmt" where
  "learn_all ext [] g = return_val () g"
| "learn_all ext (b # bs) g = and_then (agent_learn ext b GAMMA) (\<lambda>_. learn_all ext bs) g"

fun primary_trace :: "('e, 'o, 'r) externals \<Rightarrow> batch list \<Rightarrow> ('e, 'o, 'r) globals \<Rightarrow> weights list" where
  "primary_trace ext [] g = []"
| "primary_trace ext (b # bs) g =
     (case agent_learn ext b GAMMA g of
        (Inl e, g') \<Rightarrow> []
      | (Inr u, g') \<Rightarrow> models g' q_network # primary_trace ext bs g')"

text \<open>
  The weights of a trailing average over \<open>n + 1\<close> values, the oldest first: the initial
  value counts \<open>(1 - tau) ^ n\<close>, the value of the \<open>k\<close>-th later step counts
  \<open>tau * (1 - tau) ^ (n - k)\<close>.
\<close>

definition trailing_weights :: "real \<Rightarrow> nat \<Rightarrow> real list" where
  "trailing_weights tau n = (1 - tau) ^ n # map (\<lambda>k. tau * (1 - tau) ^ (n - 1 - k)) [0..<n]"

definition weighted_sum :: "real list \<Rightarrow> real list \<Rightarrow> real" where
  "weighted_sum cs xs = (\<Sum>(c, x)\<leftarrow>zip cs xs. c * x)"

section \<open>Properties\<close>

subsection \<open>The replay buffer is a bounded first-in first-out queue\<close>

lemma deque_append_length_le: "length d \<le> n \<Longrightarrow> length (deque_append n d x) \<le> n"
  by (simp add: deque_append_def Let_def)

lemma deque_append_full: "length d = n \<Longrightarrow> 0 < n \<Longrightarrow> deque_append n d x = tl d @ [x]"
  by (cases d) (auto simp: deque_append_def Let_def)

lemma deque_append_room: "length d < n \<Longrightarrow> deque_append n d x = d @ [x]"
  by (simp add: deque_append_def Let_def)

lemma deque_extend_drop:
  "length d \<le> n \<Longrightarrow> deque_extend n d xs = drop (length d + length xs - n) (d @ xs)"
proof (induction xs arbitrary: d)
  case Nil
  then show ?case by (simp add: deque_extend_def)
next
  case (Cons x xs)
  have le: "length (deque_append n d x) \<le> n"
    using Cons.prems by (rule deque_append_length_le)
  have "deque_extend n d (x # xs) = deque_extend n (deque_append n d x) xs"
    by (simp add: deque_extend_def)
  also have "\<dots> = drop (length (deque_append n d x) + length xs - n) (deque_append n d x @ xs)"
    using Cons.IH [OF le] .
  also have "\<dots> = drop (length d + length (x # xs) - n) (d @ x # xs)"
  proof (cases "length d < n")
    case True
    then show ?thesis by (simp add: deque_append_room)
  next
    case False
    with Cons.prems have eq: "length d = n" by simp
    then show ?thesis
      by (cases d) (auto simp: deque_append_def)
  qed
  finally show ?case .
qed


subsection \<open>Statements: sequencing\<close>

lemma and_then_read_global: "and_then (read_global h) f g = f (h g) g"
  by (simp add: and_then_def read_global_def)

lemma and_then_write_global: "and_then (write_global h) f g = f () (h g)"
  by (simp add: and_then_def write_global_def)

lemma and_then_eval_Inr: "and_then (eval_expr (Inr v)) f g = f v g"
  by (simp add: and_then_def eval_expr_def)

lemma and_then_eval_Inl: "and_then (eval_expr (Inl e)) f g = (Inl e, g)"
  by (simp add: and_then_def eval_expr_def)

lemma and_then_return_val: "and_then (return_val v) f g = f v g"
  by (simp add: and_then_def return_val_def)


subsection \<open>Floating-point values: elementary facts\<close>

lemma F32_OVERFLOW_pos: "0 < F32_OVERFLOW"
  by (simp add: F32_OVERFLOW_def)

lemma f32_finite: "\<bar>x\<bar> < F32_OVERFLOW \<Longrightarrow> f32 x = Fin x"
  by (auto simp: f32_def)

lemma f32_0 [simp]: "f32 0 = Fin 0"
  by (simp add: f32_finite F32_OVERFLOW_pos)

lemma f32_1 [simp]: "f32 1 = Fin 1"
  by (simp add: f32_finite F32_OVERFLOW_def)

lemma f32_of_bool: "f32 (of_bool b) = Fin (of_bool b)"
  by (cases b) simp_all

text \<open>A value is normal when it is not a finite number beyond the overflow threshold.\<close>

lemma f32_cases:
  obtains "f32 x = Fin x" and "\<bar>x\<bar> < F32_OVERFLOW" | "f32 x = PosInf" | "f32 x = NegInf"
proof (cases "F32_OVERFLOW \<le> x")
  case True
  then show ?thesis using that(2) by (simp add: f32_def)
next
  case False
  show ?thesis
  proof (cases "x \<le> - F32_OVERFLOW")
    case True
    with False show ?thesis using that(3) by (simp add: f32_def)
  next
    case neg: False
    with False have "f32 x = Fin x" and "\<bar>x\<bar> < F32_OVERFLOW"
      by (simp_all add: f32_def abs_less_iff)
    then show ?thesis using that(1) by blast
  qed
qed

lemma fl_mul_cases:
  obtains a where "fl_mul x y = Fin a" and "\<bar>a\<bar> < F32_OVERFLOW"
  | "fl_mul x y = PosInf" | "fl_mul x y = NegInf" | "fl_mul x y = NaN"
proof (cases "fl_mul x y")
  case (Fin a)
  then obtain b c where "x = Fin b" "y = Fin c" "f32 (b * c) = Fin a"
    by (cases x; cases y) (auto split: if_splits)
  then have "\<bar>a\<bar> < F32_OVERFLOW"
    by (cases "b * c" rule: f32_cases) auto
  with Fin that(1) show ?thesis by blast
qed (use that in auto)

lemma fl_mul_one: "fl_mul (Fin 1) (fl_mul x y) = fl_mul x y"
  by (cases x y rule: fl_mul_cases) (simp_all add: f32_finite)

lemma fl_add_zero: "fl_add (f32 x) (Fin 0) = f32 x"
  by (cases x rule: f32_cases) (simp_all add: f32_finite)

lemma fl_mul_zero_finite: "is_finite y \<Longrightarrow> fl_mul (Fin 0) y = Fin 0"
  by (cases y) simp_all

lemma fl_sub_one_one [simp]: "fl_sub (Fin 1) (Fin 1) = Fin 0"
  by (simp add: fl_sub_def)

lemma fl_sub_one_zero [simp]: "fl_sub (Fin 1) (Fin 0) = Fin 1"
  by (simp add: fl_sub_def)

lemma cast_int32_of_int:
  "0 \<le> k \<Longrightarrow> k < 2 ^ 31 \<Longrightarrow> cast_int32 (f32 (of_int k)) = k"
proof -
  assume k: "0 \<le> k" "k < 2 ^ 31"
  then have "real_of_int k < 2 ^ 31"
    by (metis of_int_less_numeral_power_cancel_iff)
  moreover have "(2 :: real) ^ 31 < F32_OVERFLOW"
    by (simp add: F32_OVERFLOW_def)
  ultimately have "f32 (of_int k) = Fin (of_int k)"
    using k by (intro f32_finite) simp
  with k show ?thesis
    by (simp add: cast_int32_def INT32_MIN_def)
qed

subsection \<open>The loss, transition by transition\<close>

lemma sequence_map_Inr:
  "(\<And>x. x \<in> set xs \<Longrightarrow> f x = Inr (h x)) \<Longrightarrow> sequence (map f xs) = Inr (map h xs)"
  by (induction xs) simp_all

lemma elementwise_same_length:
  "length xs = length ys \<Longrightarrow> elementwise f xs ys = Inr (map2 f xs ys)"
  by (simp add: elementwise_def)

lemma map2_map_map: "map2 f (map a es) (map b es) = map (\<lambda>e. f (a e) (b e)) es"
  by (induction es) simp_all

lemma zip_range_map:
  "zip (tf_range (length es)) (map f es) = map (\<lambda>j. (int j, f (es ! j))) [0..<length es]"
  by (rule nth_equalityI) (simp_all add: tf_range_def)

lemma gather_nd_taken:
  assumes "\<And>e. e \<in> set es \<Longrightarrow> 0 \<le> action e \<and> action e < int (length (net (state e)))"
  shows "gather_nd (map net (map state es)) (zip (tf_range (length es)) (map action es)) =
         Inr (map (\<lambda>e. net (state e) ! nat (action e)) es)"
proof -
  have "gather_nd (map net (map state es)) (zip (tf_range (length es)) (map action es)) =
        sequence (map (\<lambda>j. gather_at (map net (map state es)) (int j, action (es ! j))) [0..<length es])"
    by (simp add: gather_nd_def zip_range_map o_def)
  also have "\<dots> = Inr (map (\<lambda>j. net (state (es ! j)) ! nat (action (es ! j))) [0..<length es])"
    by (rule sequence_map_Inr) (use assms in \<open>simp add: gather_at_def\<close>)
  also have "map (\<lambda>j. net (state (es ! j)) ! nat (action (es ! j))) [0..<length es] =
             map (\<lambda>e. net (state e) ! nat (action e)) (map (\<lambda>j. es ! j) [0..<length es])"
    by (simp add: o_def)
  also have "\<dots> = map (\<lambda>e. net (state e) ! nat (action e)) es"
    by (simp only: map_nth)
  finally show ?thesis .
qed

text \<open>
  For a batch whose actions index the primary network's answer, the loss is the mean
  over the batch of the squared differences between the prediction, the primary
  network's value at the index of the action taken, and the target as the notebook
  computes it.
\<close>

lemma compute_loss_masked:
  assumes acts: "\<forall>e\<in>set es. 0 \<le> action e \<and> action e < int (length (fwd (models g q_net) (state e)))
      \<and> action e < 2 ^ 31"
  shows "fst (compute_loss fwd (unzip_experiences es) gamma q_net target_net g) =
     Inr (mean_squared_error (masked_target gamma (fwd (models g target_net)))
            (predicted_value (fwd (models g q_net))) es)"
proof -
  let ?tq = "fwd (models g target_net)" and ?q = "fwd (models g q_net)"
  have mx: "reduce_max (map ?tq (map next_state es)) = map (\<lambda>e. row_max (?tq (next_state e))) es"
    by (simp add: reduce_max_def o_def)
  have boot: "elementwise fl_mul (map (\<lambda>d. fl_sub (f32 1) d) (map (\<lambda>e. f32 (of_bool (done e))) es))
                (map (\<lambda>m. fl_mul (f32 gamma) m) (map (\<lambda>e. row_max (?tq (next_state e))) es)) =
              Inr (map (\<lambda>e. fl_mul (fl_sub (f32 1) (f32 (of_bool (done e))))
                            (fl_mul (f32 gamma) (row_max (?tq (next_state e))))) es)"
    by (simp add: elementwise_same_length map2_map_map o_def)
  have y: "elementwise fl_add (map (\<lambda>e. f32 (reward e)) es)
             (map (\<lambda>e. fl_mul (fl_sub (f32 1) (f32 (of_bool (done e))))
                            (fl_mul (f32 gamma) (row_max (?tq (next_state e))))) es) =
           Inr (map (masked_target gamma ?tq) es)"
    by (simp add: elementwise_same_length map2_map_map masked_target_def)
  have cast: "map cast_int32 (map (\<lambda>e. f32 (of_int (action e))) es) = map action es"
    using acts by (simp add: cast_int32_of_int)
  have ix: "stack_axis1 (tf_range (length (map ?q (map state es))))
              (map cast_int32 (map (\<lambda>e. f32 (of_int (action e))) es)) =
            Inr (zip (tf_range (length es)) (map action es))"
    unfolding cast by (simp add: stack_axis1_def tf_range_def)
  have ga: "gather_nd (map ?q (map state es)) (zip (tf_range (length es)) (map action es)) =
            Inr (map (predicted_value ?q) es)"
    using acts by (subst gather_nd_taken) (simp_all add: predicted_value_def)
  have mse: "MSE (map (masked_target gamma ?tq) es) (map (predicted_value ?q) es) =
             Inr (mean_squared_error (masked_target gamma ?tq) (predicted_value ?q) es)"
    by (simp add: MSE_def elementwise_same_length map2_map_map mean_squared_error_def)
  show ?thesis
    by (simp only: compute_loss_def unzip_experiences_def prod.case call_model_def
        and_then_read_global and_then_return_val and_then_eval_Inr mx boot y ix ga mse
        return_val_def fst_conv)
qed

text \<open>
  The notebook's target is the spec's target for every transition that is not terminal,
  and for a terminal transition whose discounted maximum is a finite number.
\<close>

lemma masked_target_finite:
  assumes "done e \<longrightarrow> is_finite (fl_mul (f32 gamma) (row_max (target_net (next_state e))))"
  shows "masked_target gamma target_net e = bootstrapped_target gamma target_net e"
proof (cases "done e")
  case True
  with assms have "fl_mul (Fin 0) (fl_mul (f32 gamma) (row_max (target_net (next_state e)))) = Fin 0"
    by (simp add: fl_mul_zero_finite)
  with True show ?thesis
    by (simp add: masked_target_def bootstrapped_target_def fl_add_zero)
next
  case False
  then show ?thesis
    by (simp add: masked_target_def bootstrapped_target_def fl_mul_one)
qed

lemma compute_loss_finite:
  assumes "\<forall>e\<in>set es. 0 \<le> action e \<and> action e < int (length (fwd (models g q_net) (state e)))
      \<and> action e < 2 ^ 31"
    and "\<forall>e\<in>set es. done e \<longrightarrow>
      is_finite (fl_mul (f32 gamma) (row_max (fwd (models g target_net) (next_state e))))"
  shows "fst (compute_loss fwd (unzip_experiences es) gamma q_net target_net g) =
     Inr (mean_squared_error (bootstrapped_target gamma (fwd (models g target_net)))
            (predicted_value (fwd (models g q_net))) es)"
proof -
  have eq: "map (\<lambda>e. squared_difference (predicted_value (fwd (models g q_net)) e)
          (masked_target gamma (fwd (models g target_net)) e)) es =
        map (\<lambda>e. squared_difference (predicted_value (fwd (models g q_net)) e)
          (bootstrapped_target gamma (fwd (models g target_net)) e)) es"
    using assms(2) by (intro map_cong refl) (simp add: masked_target_finite)
  show ?thesis
    unfolding compute_loss_masked [where fwd = fwd and g = g and q_net = q_net, OF assms(1)]
      mean_squared_error_def eq ..
qed


subsection \<open>The loss computation changes nothing\<close>

lemma compute_loss_globals: "snd (compute_loss fwd b gamma q_net target_net g) = g"
  by (cases b)
    (simp add: compute_loss_def and_then_def call_model_def read_global_def eval_expr_def
      return_val_def split: sum.splits prod.splits)

lemma compute_loss_result:
  "compute_loss fwd b gamma q_net target_net g =
     (fst (compute_loss fwd b gamma q_net target_net g), g)"
  by (metis compute_loss_globals prod.collapse)

text \<open>The learning step, written out: where it fails and what it assigns.\<close>

lemma agent_learn_eq:
  "agent_learn ext b gamma g =
     (case fst (compute_loss (forward ext) b gamma q_network target_q_network g) of
        Inl e \<Rightarrow> (Inl e, g)
      | Inr loss \<Rightarrow>
          (let grads = tape_gradient ext (loss_of_weights ext b gamma g) (models g q_network);
               stepped = apply_gradients ext (optimizer g) grads (models g q_network)
           in (Inr (), g\<lparr>optimizer := fst stepped,
                 models := (models g)(q_network := snd stepped,
                    target_q_network := soft_update (TAU ext) (snd stepped) (models g target_q_network))\<rparr>)))"
proof (cases "fst (compute_loss (forward ext) b gamma q_network target_q_network g)")
  case (Inl e)
  then have "compute_loss (forward ext) b gamma q_network target_q_network g = (Inl e, g)"
    using compute_loss_result [of "forward ext" b gamma q_network target_q_network g] by simp
  with Inl show ?thesis
    by (simp add: agent_learn_def and_then_def)
next
  case (Inr loss)
  then have "compute_loss (forward ext) b gamma q_network target_q_network g = (Inr loss, g)"
    using compute_loss_result [of "forward ext" b gamma q_network target_q_network g] by simp
  with Inr show ?thesis
    by (simp add: agent_learn_def and_then_def read_global_def write_global_def
        apply_optimizer_def update_target_network_def Let_def split_beta)
qed

text \<open>
  Claim C8. For all inputs, failing ones included, \<open>compute_loss\<close> leaves every global
  variable as it finds it: the weights of both networks, the replay buffer and the
  sampled batch. The weights change in \<open>agent_learn\<close>, after the loss has been
  computed: the primary weights by the optimizer's step along the gradient of the loss,
  the target weights by the soft update; when the loss computation raises, nothing
  changes at all.
\<close>

theorem compute_loss_pure:
  "snd (compute_loss fwd b gamma q_net target_net g) = g \<and>
   agent_learn ext b gamma g =
     (case fst (compute_loss (forward ext) b gamma q_network target_q_network g) of
        Inl e \<Rightarrow> (Inl e, g)
      | Inr loss \<Rightarrow>
          (let grads = tape_gradient ext (loss_of_weights ext b gamma g) (models g q_network);
               stepped = apply_gradients ext (optimizer g) grads (models g q_network)
           in (Inr (), g\<lparr>optimizer := fst stepped,
                 models := (models g)(q_network := snd stepped,
                    target_q_network := soft_update (TAU ext) (snd stepped) (models g target_q_network))\<rparr>)))"
  using compute_loss_globals agent_learn_eq by blast


subsection \<open>A time step, written out\<close>

lemma learning_step_eq:
  "learning_step ext g =
     (case sample (random_below ext) (BATCH_SIZE ext) (memory_buffer g) (rng g) of
        Inl e \<Rightarrow> (Inl e, g)
      | Inr (b, r') \<Rightarrow> agent_learn ext b GAMMA (g\<lparr>rng := r', experiences := b\<rparr>))"
  by (simp add: learning_step_def get_experiences_def and_then_def write_global_def
      split: sum.splits prod.splits)

lemma time_step_eq:
  "time_step ext t s g =
     (if update (before_learning ext t s g)
      then (case learning_step ext (before_learning ext t s g) of
              (Inl e, g2) \<Rightarrow> (Inl e, g2)
            | (Inr u, g2) \<Rightarrow>
                (Inr (step_outcome ext s g),
                 g2\<lparr>total_points := total_points g2 + fst (snd (step_outcome ext s g))\<rparr>))
      else (Inr (step_outcome ext s g),
            (before_learning ext t s g)
              \<lparr>total_points := total_points g + fst (snd (step_outcome ext s g))\<rparr>))"
  by (simp add: time_step_def and_then_def call_model_def read_global_def write_global_def
      choose_action_def step_env_def return_val_def before_learning_def step_outcome_def
      step_action_def step_experience_def split_beta split: sum.splits prod.splits)

lemma agent_learn_frame:
  assumes "agent_learn ext b gamma g = (res, g')"
  shows "memory_buffer g' = memory_buffer g" and "epsilon g' = epsilon g"
    and "total_point_history g' = total_point_history g" and "total_points g' = total_points g"
    and "av_latest_points g' = av_latest_points g" and "update g' = update g"
    and "experiences g' = experiences g" and "env g' = env g" and "rng g' = rng g"
    and "saved_models g' = saved_models g"
  using assms by (auto simp: agent_learn_eq Let_def split: sum.splits)

lemma learning_step_frame:
  assumes "learning_step ext g = (res, g')"
  shows "memory_buffer g' = memory_buffer g" and "epsilon g' = epsilon g"
    and "total_point_history g' = total_point_history g" and "total_points g' = total_points g"
    and "av_latest_points g' = av_latest_points g" and "update g' = update g"
    and "env g' = env g" and "saved_models g' = saved_models g"
  using assms
  by (auto simp: learning_step_eq split: sum.splits prod.splits dest: agent_learn_frame)

lemma before_learning_simps [simp]:
  "epsilon (before_learning ext t s g) = epsilon g"
  "total_point_history (before_learning ext t s g) = total_point_history g"
  "total_points (before_learning ext t s g) = total_points g"
  "av_latest_points (before_learning ext t s g) = av_latest_points g"
  "saved_models (before_learning ext t s g) = saved_models g"
  "models (before_learning ext t s g) = models g"
  "optimizer (before_learning ext t s g) = optimizer g"
  "experiences (before_learning ext t s g) = experiences g"
  "memory_buffer (before_learning ext t s g) =
     deque_append MEMORY_SIZE (memory_buffer g) (step_experience ext s g)"
  "update (before_learning ext t s g) =
     check_update_conditions t NUM_STEPS_FOR_UPDATE
       (deque_append MEMORY_SIZE (memory_buffer g) (step_experience ext s g)) (BATCH_SIZE ext)"
  by (simp_all add: before_learning_def)

lemma time_step_frame:
  assumes "time_step ext t s g = (res, g')"
  shows "memory_buffer g' = memory_buffer (before_learning ext t s g)"
    and "update g' = update (before_learning ext t s g)"
    and "epsilon g' = epsilon g"
    and "total_point_history g' = total_point_history g"
    and "av_latest_points g' = av_latest_points g"
    and "saved_models g' = saved_models g"
  using assms
  by (auto simp: time_step_eq split: if_splits sum.splits prod.splits dest: learning_step_frame)

lemma time_step_outcome:
  assumes "time_step ext t s g = (Inr out, g')"
  shows "out = step_outcome ext s g"
    and "total_points g' = total_points g + fst (snd (step_outcome ext s g))"
  using assms
  by (auto simp: time_step_eq split: if_splits sum.splits prod.splits dest: learning_step_frame)

lemma step_loop_frame:
  "step_loop ext n t s g = (res, g') \<Longrightarrow>
     epsilon g' = epsilon g \<and> total_point_history g' = total_point_history g \<and>
     av_latest_points g' = av_latest_points g \<and> saved_models g' = saved_models g"
proof (induction n arbitrary: t s g)
  case 0
  then show ?case by (simp add: return_val_def)
next
  case (Suc n)
  obtain r1 g1 where ts: "time_step ext t s g = (r1, g1)"
    by (cases "time_step ext t s g")
  note fr = time_step_frame [OF ts]
  show ?case
  proof (cases r1)
    case (Inl e)
    with Suc.prems ts have "g' = g1" by (simp add: and_then_def)
    with fr show ?thesis by simp
  next
    case (Inr out)
    obtain s' r d where out: "out = (s', r, d)" by (cases out)
    show ?thesis
    proof (cases d)
      case True
      with Suc.prems ts Inr out have "g' = g1" by (simp add: and_then_def return_val_def)
      with fr show ?thesis by simp
    next
      case False
      with Suc.prems ts Inr out have "step_loop ext n (Suc t) s' g1 = (res, g')"
        by (simp add: and_then_def)
      from Suc.IH [OF this] fr show ?thesis by simp
    qed
  qed
qed


subsection \<open>The replay buffer in the training loop\<close>

text \<open>
  Claim C2. Whatever sequence \<open>xs\<close> of experiences is appended to the empty buffer, the
  buffer never holds more than \<open>MEMORY_SIZE = 100000\<close> elements, and it holds the last
  \<open>MEMORY_SIZE\<close> elements of \<open>xs\<close> in the order of their insertion (all of \<open>xs\<close> while
  \<open>xs\<close> is shorter); after more than \<open>MEMORY_SIZE\<close> insertions it is exactly full. An
  append to a full buffer removes the oldest element, the head, and adds the new one at
  the end. In the training loop the buffer starts empty and every time step changes it
  by one such append.
\<close>

theorem memory_buffer_bounded_fifo:
  "length (deque_extend MEMORY_SIZE [] xs) \<le> MEMORY_SIZE \<and>
   deque_extend MEMORY_SIZE [] xs = drop (length xs - MEMORY_SIZE) xs \<and>
   (MEMORY_SIZE < length xs \<longrightarrow> length (deque_extend MEMORY_SIZE [] xs) = MEMORY_SIZE) \<and>
   (length d = MEMORY_SIZE \<longrightarrow> deque_append MEMORY_SIZE d x = tl d @ [x]) \<and>
   memory_buffer (snd (initialise g)) = [] \<and>
   memory_buffer (snd (time_step ext t s g)) =
     deque_append MEMORY_SIZE (memory_buffer g) (step_experience ext s g)"
proof -
  have pos: "0 < MEMORY_SIZE" by (simp add: MEMORY_SIZE_def)
  have eq: "deque_extend MEMORY_SIZE [] xs = drop (length xs - MEMORY_SIZE) xs"
    by (simp add: deque_extend_drop)
  have len: "length (deque_extend MEMORY_SIZE [] xs) = min (length xs) MEMORY_SIZE"
    unfolding eq by simp
  from pos have full: "length d = MEMORY_SIZE \<longrightarrow> deque_append MEMORY_SIZE d x = tl d @ [x]"
    by (simp add: deque_append_full)
  have init: "memory_buffer (snd (initialise g)) = []"
    by (simp add: initialise_def write_global_def)
  have step: "memory_buffer (snd (time_step ext t s g)) =
     deque_append MEMORY_SIZE (memory_buffer g) (step_experience ext s g)"
    using time_step_frame(1) [of ext t s g] by (cases "time_step ext t s g") simp
  from eq len full init step show ?thesis by simp
qed

theorem memory_buffer_bounded_fifo_witness:
  "MEMORY_SIZE < length [0..<100001] \<and>
   deque_extend MEMORY_SIZE [] [0..<100001] = [1..<100001] \<and>
   length [0..<100000] = MEMORY_SIZE \<and>
   deque_append MEMORY_SIZE [0..<100000] 100000 = [1..<100000] @ [100000]"
  using memory_buffer_bounded_fifo [of "[0..<100001]" "[0..<100000]" 100000 start "stub 64 200" 0 "[0]"]
  by (simp add: MEMORY_SIZE_def tl_upt)


subsection \<open>An episode, written out\<close>

lemma np_mean_slice_last:
  "h \<noteq> [] \<Longrightarrow> np_mean (slice_last num_p_av h) = Inr (moving_average h)"
  by (auto simp: np_mean_def slice_last_def num_p_av_def moving_average_def min_def)

lemma episode_eq:
  "episode ext g =
     (case step_loop ext max_num_timesteps 0 (first_state ext g) (episode_begin ext g) of
        (Inl e, g2) \<Rightarrow> (Inl e, g2)
      | (Inr u, g2) \<Rightarrow>
          (Inr (200 \<le> moving_average (total_point_history g2 @ [total_points g2])),
           g2\<lparr>total_point_history := total_point_history g2 @ [total_points g2],
              av_latest_points := moving_average (total_point_history g2 @ [total_points g2]),
              epsilon := get_new_eps (epsilon g2)\<rparr>))"
  by (simp add: episode_def and_then_def reset_env_def write_global_def read_global_def
      eval_expr_def np_mean_slice_last first_state_def episode_begin_def split_beta
      split: sum.splits prod.splits)

lemma step_loop_total:
  "step_loop ext n t s g = (Inr u, g') \<Longrightarrow>
     total_points g' = total_points g + sum_list (step_rewards ext n t s g)"
proof (induction n arbitrary: t s g)
  case 0
  then show ?case by (simp add: return_val_def)
next
  case (Suc n)
  obtain r1 g1 where ts: "time_step ext t s g = (r1, g1)"
    by (cases "time_step ext t s g")
  with Suc.prems obtain out where r1: "r1 = Inr out"
    by (cases r1) (simp_all add: and_then_def)
  obtain s' r d where out: "out = (s', r, d)" by (cases out)
  from ts r1 have tot: "total_points g1 = total_points g + fst (snd (step_outcome ext s g))"
    by (simp add: time_step_outcome)
  show ?case
  proof (cases d)
    case True
    with Suc.prems ts r1 out have "g' = g1" by (simp add: and_then_def return_val_def)
    with tot ts r1 out True show ?thesis by simp
  next
    case False
    with Suc.prems ts r1 out have "step_loop ext n (Suc t) s' g1 = (Inr u, g')"
      by (simp add: and_then_def)
    from Suc.IH [OF this] tot ts r1 out False show ?thesis by simp
  qed
qed

lemma episode_Inr:
  assumes "episode ext g = (Inr solved, g')"
  shows "total_point_history g' = total_point_history g @ [sum_list (episode_rewards ext g)]"
    and "av_latest_points g' = moving_average (total_point_history g')"
    and "solved \<longleftrightarrow> 200 \<le> av_latest_points g'"
    and "epsilon g' = get_new_eps (epsilon g)"
    and "saved_models g' = saved_models g"
proof -
  obtain r2 g2 where sl: "step_loop ext max_num_timesteps 0 (first_state ext g) (episode_begin ext g) = (r2, g2)"
    by (cases "step_loop ext max_num_timesteps 0 (first_state ext g) (episode_begin ext g)")
  with assms obtain u where r2: "r2 = Inr u"
    by (cases r2) (simp_all add: episode_eq)
  from step_loop_frame [OF sl]
  have fr: "epsilon g2 = epsilon g" "total_point_history g2 = total_point_history g"
    "saved_models g2 = saved_models g"
    by (simp_all add: episode_begin_def)
  from step_loop_total [OF sl [unfolded r2]]
  have tot: "total_points g2 = sum_list (episode_rewards ext g)"
    by (simp add: episode_rewards_def episode_begin_def)
  from assms sl r2
  have g': "g' = g2\<lparr>total_point_history := total_point_history g2 @ [total_points g2],
              av_latest_points := moving_average (total_point_history g2 @ [total_points g2]),
              epsilon := get_new_eps (epsilon g2)\<rparr>"
    and solved: "solved \<longleftrightarrow> 200 \<le> moving_average (total_point_history g2 @ [total_points g2])"
    by (simp_all add: episode_eq)
  show "total_point_history g' = total_point_history g @ [sum_list (episode_rewards ext g)]"
    using g' fr tot by simp
  show "av_latest_points g' = moving_average (total_point_history g')"
    using g' by simp
  show "solved \<longleftrightarrow> 200 \<le> av_latest_points g'"
    using g' solved by simp
  show "epsilon g' = get_new_eps (epsilon g)"
    using g' fr by simp
  show "saved_models g' = saved_models g"
    using g' fr by simp
qed

lemma episode_Inl:
  assumes "episode ext g = (Inl e, g')"
  shows "step_loop ext max_num_timesteps 0 (first_state ext g) (episode_begin ext g) = (Inl e, g')"
  using assms by (simp add: episode_eq split: sum.splits prod.splits)


subsection \<open>The loops, unfolded once\<close>

lemma step_loop_pos:
  "0 < n \<Longrightarrow> step_loop ext n t s g =
     (case time_step ext t s g of
        (Inl e, g1) \<Rightarrow> (Inl e, g1)
      | (Inr (s', r, d), g1) \<Rightarrow> if d then (Inr (), g1) else step_loop ext (n - 1) (Suc t) s' g1)"
  by (cases n) (simp_all add: and_then_def return_val_def split: sum.splits prod.splits)

lemma episode_loop_pos:
  "0 < n \<Longrightarrow> episode_loop ext n g =
     (case episode ext g of
        (Inl e, g1) \<Rightarrow> (Inl e, g1)
      | (Inr solved, g1) \<Rightarrow>
          if solved then (Inr (), g1\<lparr>saved_models := models g1 q_network # saved_models g1\<rparr>)
          else episode_loop ext (n - 1) g1)"
  by (cases n)
    (simp_all add: and_then_def save_model_def write_global_def split: sum.splits prod.splits)

lemma step_rewards_pos:
  "0 < n \<Longrightarrow> step_rewards ext n t s g =
     (case time_step ext t s g of
        (Inl e, g') \<Rightarrow> []
      | (Inr (s', r, d), g') \<Rightarrow>
          fst (snd (step_outcome ext s g)) # (if d then [] else step_rewards ext (n - 1) (Suc t) s' g'))"
  by (cases n) (simp_all split: sum.splits prod.splits)

lemma loop_rewards_pos:
  "0 < n \<Longrightarrow> loop_rewards ext n g =
     (case episode ext g of
        (Inl e, g') \<Rightarrow> []
      | (Inr solved, g') \<Rightarrow>
          episode_rewards ext g # (if solved then [] else loop_rewards ext (n - 1) g'))"
  by (cases n) (simp_all split: sum.splits prod.splits)


subsection \<open>A run with the stub\<close>

lemma stub_step_outcome: "step_outcome (stub b rew) s g = ([0], rew, True)"
  by (simp add: step_outcome_def stub_def)

lemma stub_time_step:
  "time_step (stub 64 200) 0 [0] (episode_begin (stub 64 200) start) =
     (Inr ([0], 200, True),
      start\<lparr>memory_buffer := [\<lparr>state = [0], action = 0, reward = 200, next_state = [0], done = True\<rparr>],
            total_points := 200\<rparr>)"
  by (simp add: time_step_eq episode_begin_def start_def)
    (simp add: before_learning_def stub_def step_experience_def step_outcome_def
      step_action_def deque_append_def MEMORY_SIZE_def check_update_conditions_def)

lemma stub_step_loop:
  "step_loop (stub 64 200) max_num_timesteps 0 [0] (episode_begin (stub 64 200) start) =
     (Inr (),
      start\<lparr>memory_buffer := [\<lparr>state = [0], action = 0, reward = 200, next_state = [0], done = True\<rparr>],
            total_points := 200\<rparr>)"
  by (subst step_loop_pos) (simp_all add: max_num_timesteps_def stub_time_step)

lemma stub_first_state: "first_state (stub b rew) g = [0]"
  by (simp add: first_state_def stub_def)

lemma stub_episode:
  "episode (stub 64 200) start =
     (Inr True,
      start\<lparr>memory_buffer := [\<lparr>state = [0], action = 0, reward = 200, next_state = [0], done = True\<rparr>],
            total_points := 200, total_point_history := [200], av_latest_points := 200,
            epsilon := 995 / 1000\<rparr>)"
  by (simp add: episode_eq stub_first_state stub_step_loop)
    (simp add: start_def moving_average_def get_new_eps_def EPSILON_MIN_def EPSILON_DECAY_def)

lemma stub_episode_loop:
  "episode_loop (stub 64 200) num_episodes start =
     (Inr (),
      start\<lparr>memory_buffer := [\<lparr>state = [0], action = 0, reward = 200, next_state = [0], done = True\<rparr>],
            total_points := 200, total_point_history := [200], av_latest_points := 200,
            epsilon := 995 / 1000, saved_models := [[0, 0]]\<rparr>)"
  by (subst episode_loop_pos) (simp_all add: num_episodes_def stub_episode, simp add: start_def)

lemma stub_initialise: "initialise start = (Inr (), start)"
  by (simp add: initialise_def write_global_def start_def fun_eq_iff)

lemma stub_train:
  "train (stub 64 200) start =
     (Inr (),
      start\<lparr>memory_buffer := [\<lparr>state = [0], action = 0, reward = 200, next_state = [0], done = True\<rparr>],
            total_points := 200, total_point_history := [200], av_latest_points := 200,
            epsilon := 995 / 1000, saved_models := [[0, 0]]\<rparr>)"
  by (simp add: train_def and_then_def stub_initialise stub_episode_loop)


subsection \<open>One history entry per episode: the sum of its rewards\<close>

lemma episode_loop_history:
  "episode_loop ext n g = (Inr u, g') \<Longrightarrow>
     total_point_history g' = total_point_history g @ map sum_list (loop_rewards ext n g)"
proof (induction n arbitrary: g)
  case 0
  then show ?case by (simp add: return_val_def)
next
  case (Suc n)
  obtain r1 g1 where ep: "episode ext g = (r1, g1)"
    by (cases "episode ext g")
  with Suc.prems obtain solved where r1: "r1 = Inr solved"
    by (cases r1) (simp_all add: and_then_def)
  note h1 = episode_Inr(1) [OF ep [unfolded r1]]
  show ?case
  proof (cases solved)
    case True
    with Suc.prems ep r1 have "total_point_history g' = total_point_history g1"
      by (auto simp: and_then_def save_model_def write_global_def)
    with h1 ep r1 True show ?thesis by simp
  next
    case False
    with Suc.prems ep r1 have "episode_loop ext n g1 = (Inr u, g')"
      by (simp add: and_then_def)
    from Suc.IH [OF this] h1 ep r1 False show ?thesis by simp
  qed
qed

text \<open>
  Claim C10. The accumulator \<open>total_points\<close> is 0 when the loop over the time steps is
  entered, and every completed time step adds the reward that \<^verbatim>\<open>env.step\<close> returned.
  An episode that completes appends exactly one value to \<open>total_point_history\<close>: the
  sum of the rewards of its steps. When the loop over the episodes ends, the history
  has grown by one such sum for every completed episode, in order; after a training run
  its length is the number of completed episodes.
\<close>

theorem total_point_history_sums:
  "total_points (episode_begin ext g) = 0 \<and>
   (time_step ext t s g = (Inr out, g1) \<longrightarrow>
      total_points g1 = total_points g + fst (snd (step_outcome ext s g))) \<and>
   (episode ext g = (Inr solved, g2) \<longrightarrow>
      total_point_history g2 = total_point_history g @ [sum_list (episode_rewards ext g)]) \<and>
   (episode_loop ext n g = (Inr u, g3) \<longrightarrow>
      total_point_history g3 = total_point_history g @ map sum_list (loop_rewards ext n g)) \<and>
   (train ext g = (Inr u, g4) \<longrightarrow>
      length (total_point_history g4) = length (loop_rewards ext num_episodes (snd (initialise g))))"
proof -
  have "total_points (episode_begin ext g) = 0"
    by (simp add: episode_begin_def)
  moreover have "time_step ext t s g = (Inr out, g1) \<longrightarrow>
      total_points g1 = total_points g + fst (snd (step_outcome ext s g))"
    by (simp add: time_step_outcome)
  moreover have "episode ext g = (Inr solved, g2) \<longrightarrow>
      total_point_history g2 = total_point_history g @ [sum_list (episode_rewards ext g)]"
    by (simp add: episode_Inr)
  moreover have "episode_loop ext n g = (Inr u, g3) \<longrightarrow>
      total_point_history g3 = total_point_history g @ map sum_list (loop_rewards ext n g)"
    by (simp add: episode_loop_history)
  moreover have "train ext g = (Inr u, g4) \<longrightarrow>
      length (total_point_history g4) = length (loop_rewards ext num_episodes (snd (initialise g)))"
  proof
    assume "train ext g = (Inr u, g4)"
    then have "episode_loop ext num_episodes (snd (initialise g)) = (Inr u, g4)"
      by (simp add: train_def and_then_def initialise_def write_global_def)
    from episode_loop_history [OF this] show
      "length (total_point_history g4) = length (loop_rewards ext num_episodes (snd (initialise g)))"
      by (simp add: initialise_def write_global_def)
  qed
  ultimately show ?thesis by blast
qed

theorem total_point_history_sums_witness:
  "total_points (snd (time_step (stub 64 200) 0 [0] (episode_begin (stub 64 200) start))) = 200 \<and>
   total_point_history (snd (episode (stub 64 200) start)) = [sum_list (episode_rewards (stub 64 200) start)] \<and>
   episode_rewards (stub 64 200) start = [200] \<and>
   total_point_history (snd (episode_loop (stub 64 200) num_episodes start)) = [200] \<and>
   loop_rewards (stub 64 200) num_episodes start = [[200]] \<and>
   length (total_point_history (snd (train (stub 64 200) start))) = 1"
proof -
  have rewards: "episode_rewards (stub 64 200) start = [200]"
    unfolding episode_rewards_def stub_first_state max_num_timesteps_def
    by (subst step_rewards_pos) (simp_all add: stub_time_step stub_step_outcome)
  have loop: "loop_rewards (stub 64 200) num_episodes start = [[200]]"
    unfolding num_episodes_def
    by (subst loop_rewards_pos) (simp_all add: stub_episode rewards)
  show ?thesis
    using total_point_history_sums [of "stub 64 200" "episode_begin (stub 64 200) start" 0 "[0]"
        "([0], 200, True)" "snd (time_step (stub 64 200) 0 [0] (episode_begin (stub 64 200) start))"]
      total_point_history_sums [of "stub 64 200" start 0 "[0]" _ _ True "snd (episode (stub 64 200) start)"
        num_episodes "()" "snd (episode_loop (stub 64 200) num_episodes start)"
        "snd (train (stub 64 200) start)"]
    by (simp add: stub_time_step stub_episode stub_episode_loop stub_train stub_initialise
        stub_step_outcome rewards loop)
qed

lemma stub_time_step_small:
  assumes "length (memory_buffer g) < 63"
  shows "time_step (stub 64 rew) 0 [0] g =
     (Inr ([0], rew, True),
      g\<lparr>memory_buffer := memory_buffer g @
            [\<lparr>state = [0], action = 0, reward = rew, next_state = [0], done = True\<rparr>],
        update := False, total_points := total_points g + rew\<rparr>)"
proof -
  have ex: "step_experience (stub 64 rew) [0] g =
      \<lparr>state = [0], action = 0, reward = rew, next_state = [0], done = True\<rparr>"
    by (simp add: step_experience_def stub_step_outcome) (simp add: step_action_def stub_def)
  have buf: "deque_append MEMORY_SIZE (memory_buffer g)
        \<lparr>state = [0], action = 0, reward = rew, next_state = [0], done = True\<rparr> =
      memory_buffer g @ [\<lparr>state = [0], action = 0, reward = rew, next_state = [0], done = True\<rparr>]"
    using assms by (simp add: deque_append_room MEMORY_SIZE_def)
  have no: "\<not> check_update_conditions 0 NUM_STEPS_FOR_UPDATE
      (memory_buffer g @ [\<lparr>state = [0], action = 0, reward = rew, next_state = [0], done = True\<rparr>])
      (BATCH_SIZE (stub 64 rew))"
    using assms by (simp add: check_update_conditions_def stub_def)
  have bl: "before_learning (stub 64 rew) 0 [0] g =
      g\<lparr>memory_buffer := memory_buffer g @
            [\<lparr>state = [0], action = 0, reward = rew, next_state = [0], done = True\<rparr>],
        update := False\<rparr>"
    unfolding before_learning_def ex buf using no by (simp add: stub_def)
  show ?thesis
    by (simp add: time_step_eq bl stub_step_outcome)
qed

lemma stub_episode_small:
  assumes "length (memory_buffer g) < 63"
  shows "episode (stub 64 rew) g =
     (Inr (200 \<le> moving_average (total_point_history g @ [rew])),
      g\<lparr>memory_buffer := memory_buffer g @
            [\<lparr>state = [0], action = 0, reward = rew, next_state = [0], done = True\<rparr>],
        update := False, total_points := rew,
        total_point_history := total_point_history g @ [rew],
        av_latest_points := moving_average (total_point_history g @ [rew]),
        epsilon := get_new_eps (epsilon g)\<rparr>)"
proof -
  have len: "length (memory_buffer (episode_begin (stub 64 rew) g)) < 63"
    using assms by (simp add: episode_begin_def)
  have "step_loop (stub 64 rew) max_num_timesteps 0 [0] (episode_begin (stub 64 rew) g) =
     (Inr (),
      (episode_begin (stub 64 rew) g)\<lparr>memory_buffer := memory_buffer g @
            [\<lparr>state = [0], action = 0, reward = rew, next_state = [0], done = True\<rparr>],
        update := False, total_points := rew\<rparr>)"
    by (subst step_loop_pos)
      (simp_all add: max_num_timesteps_def stub_time_step_small [OF len], simp add: episode_begin_def)
  then show ?thesis
    by (simp add: episode_eq stub_first_state) (simp add: episode_begin_def stub_def)
qed


subsection \<open>The moving average and the end of training\<close>

lemma episode_loop_saved:
  "episode_loop ext n g = (Inr u, g') \<Longrightarrow> 0 < n \<Longrightarrow>
     (if 200 \<le> av_latest_points g'
      then saved_models g' = models g' q_network # saved_models g \<and>
           length (total_point_history g') \<le> length (total_point_history g) + n
      else saved_models g' = saved_models g \<and>
           length (total_point_history g') = length (total_point_history g) + n)"
proof (induction n arbitrary: g)
  case 0
  then show ?case by simp
next
  case (Suc n)
  obtain r1 g1 where ep: "episode ext g = (r1, g1)"
    by (cases "episode ext g")
  with Suc.prems obtain solved where r1: "r1 = Inr solved"
    by (cases r1) (simp_all add: and_then_def)
  note e1 = episode_Inr [OF ep [unfolded r1]]
  show ?case
  proof (cases solved)
    case True
    with Suc.prems ep r1 have "g' = g1\<lparr>saved_models := models g1 q_network # saved_models g1\<rparr>"
      by (simp add: and_then_def save_model_def write_global_def)
    with e1 True show ?thesis by simp
  next
    case False
    with Suc.prems ep r1 have loop: "episode_loop ext n g1 = (Inr u, g')"
      by (simp add: and_then_def)
    show ?thesis
    proof (cases n)
      case 0
      with loop have "g' = g1" by (simp add: return_val_def)
      with e1 False 0 show ?thesis by simp
    next
      case (Suc m)
      then have "0 < n" by simp
      from Suc.IH [OF loop this] e1 show ?thesis
        by (simp split: if_splits)
    qed
  qed
qed

lemma episode_loop_step:
  "0 < n \<Longrightarrow> episode_loop ext n g =
     (case episode ext g of
        (Inl e, g1) \<Rightarrow> (Inl e, g1)
      | (Inr solved, g1) \<Rightarrow>
          if 200 \<le> av_latest_points g1
          then (Inr (), g1\<lparr>saved_models := models g1 q_network # saved_models g1\<rparr>)
          else episode_loop ext (n - 1) g1)"
proof -
  assume n: "0 < n"
  obtain r1 g1 where ep: "episode ext g = (r1, g1)"
    by (cases "episode ext g")
  show ?thesis
  proof (cases r1)
    case (Inl e)
    with n ep show ?thesis by (simp add: episode_loop_pos)
  next
    case (Inr solved)
    with ep have "solved \<longleftrightarrow> 200 \<le> av_latest_points g1"
      by (simp add: episode_Inr(3))
    with n ep Inr show ?thesis by (simp add: episode_loop_pos)
  qed
qed

text \<open>
  Claim C7. When an episode completes, the history is not empty and
  \<open>av_latest_points\<close> is the mean of its most recent \<open>min(100, length)\<close> entries, a
  division by a positive number; the episode reports convergence exactly when this
  average is at least 200, and it saves nothing itself. An episode fails only when its
  loop over the time steps fails, never in the average. After every episode the loop
  over the episodes decides on this average: when it is at least 200 the loop saves the
  primary weights and ends at once, otherwise it goes on with the next episode, as long
  as episodes remain. Consequently, when the loop over at most
  \<open>n > 0\<close> episodes ends normally, either the last average is at least 200 and the
  primary weights were saved, once, or it is below 200, nothing was saved and all \<open>n\<close>
  episodes were run. With no episode left the loop ends normally and changes nothing;
  a training run ends with at most 2000 entries in the history.
\<close>

theorem moving_average_convergence:
  "(episode ext g = (Inr solved, g1) \<longrightarrow>
      total_point_history g1 \<noteq> [] \<and>
      0 < min 100 (length (total_point_history g1)) \<and>
      av_latest_points g1 =
        sum_list (drop (length (total_point_history g1) - 100) (total_point_history g1)) /
          real (min 100 (length (total_point_history g1))) \<and>
      (solved \<longleftrightarrow> 200 \<le> av_latest_points g1) \<and>
      saved_models g1 = saved_models g) \<and>
   (episode ext g = (Inl e, g2) \<longrightarrow>
      step_loop ext max_num_timesteps 0 (first_state ext g) (episode_begin ext g) = (Inl e, g2)) \<and>
   (0 < n \<and> episode_loop ext n g = (Inr u, g3) \<longrightarrow>
      (if 200 \<le> av_latest_points g3
       then saved_models g3 = models g3 q_network # saved_models g \<and>
            length (total_point_history g3) \<le> length (total_point_history g) + n
       else saved_models g3 = saved_models g \<and>
            length (total_point_history g3) = length (total_point_history g) + n)) \<and>
   (0 < n \<longrightarrow>
      episode_loop ext n g =
        (case episode ext g of
           (Inl e, g1) \<Rightarrow> (Inl e, g1)
         | (Inr solved, g1) \<Rightarrow>
             if 200 \<le> av_latest_points g1
             then (Inr (), g1\<lparr>saved_models := models g1 q_network # saved_models g1\<rparr>)
             else episode_loop ext (n - 1) g1)) \<and>
   episode_loop ext 0 g = (Inr (), g) \<and>
   train ext g = and_then initialise (\<lambda>_. episode_loop ext 2000) g \<and>
   (train ext g = (Inr u, g4) \<longrightarrow>
      length (total_point_history g4) \<le> 2000 \<and>
      (if 200 \<le> av_latest_points g4
       then saved_models g4 = models g4 q_network # saved_models g
       else saved_models g4 = saved_models g \<and> length (total_point_history g4) = 2000))"
proof -
  have a: "episode ext g = (Inr solved, g1) \<longrightarrow>
      total_point_history g1 \<noteq> [] \<and>
      0 < min 100 (length (total_point_history g1)) \<and>
      av_latest_points g1 =
        sum_list (drop (length (total_point_history g1) - 100) (total_point_history g1)) /
          real (min 100 (length (total_point_history g1))) \<and>
      (solved \<longleftrightarrow> 200 \<le> av_latest_points g1) \<and>
      saved_models g1 = saved_models g"
  proof
    assume ep: "episode ext g = (Inr solved, g1)"
    note e1 = episode_Inr [OF ep]
    from e1(1) have ne: "total_point_history g1 \<noteq> []" by simp
    then have "0 < min 100 (length (total_point_history g1))" by simp
    with ne e1 show "total_point_history g1 \<noteq> [] \<and>
      0 < min 100 (length (total_point_history g1)) \<and>
      av_latest_points g1 =
        sum_list (drop (length (total_point_history g1) - 100) (total_point_history g1)) /
          real (min 100 (length (total_point_history g1))) \<and>
      (solved \<longleftrightarrow> 200 \<le> av_latest_points g1) \<and>
      saved_models g1 = saved_models g"
      by (simp add: moving_average_def)
  qed
  have b: "episode ext g = (Inl e, g2) \<longrightarrow>
      step_loop ext max_num_timesteps 0 (first_state ext g) (episode_begin ext g) = (Inl e, g2)"
    by (simp add: episode_Inl)
  have c: "0 < n \<and> episode_loop ext n g = (Inr u, g3) \<longrightarrow>
      (if 200 \<le> av_latest_points g3
       then saved_models g3 = models g3 q_network # saved_models g \<and>
            length (total_point_history g3) \<le> length (total_point_history g) + n
       else saved_models g3 = saved_models g \<and>
            length (total_point_history g3) = length (total_point_history g) + n)"
    using episode_loop_saved [of ext n g u g3] by blast
  have d: "episode_loop ext 0 g = (Inr (), g)"
    by (simp add: return_val_def)
  have t: "train ext g = (Inr u, g4) \<longrightarrow>
      length (total_point_history g4) \<le> 2000 \<and>
      (if 200 \<le> av_latest_points g4
       then saved_models g4 = models g4 q_network # saved_models g
       else saved_models g4 = saved_models g \<and> length (total_point_history g4) = 2000)"
  proof
    assume "train ext g = (Inr u, g4)"
    then have "episode_loop ext num_episodes (snd (initialise g)) = (Inr u, g4)"
      by (simp add: train_def and_then_def initialise_def write_global_def)
    from episode_loop_saved [OF this]
    show "length (total_point_history g4) \<le> 2000 \<and>
      (if 200 \<le> av_latest_points g4
       then saved_models g4 = models g4 q_network # saved_models g
       else saved_models g4 = saved_models g \<and> length (total_point_history g4) = 2000)"
      by (simp add: num_episodes_def initialise_def write_global_def split: if_splits)
  qed
  have tr: "train ext g = and_then initialise (\<lambda>_. episode_loop ext 2000) g"
    by (simp add: train_def num_episodes_def)
  from a b c d t tr episode_loop_step [of n ext g] show ?thesis by blast
qed

lemma episode_fails:
  "fst (step_loop ext max_num_timesteps 0 (first_state ext g) (episode_begin ext g)) = Inl e \<Longrightarrow>
   fst (episode ext g) = Inl e"
  by (cases "step_loop ext max_num_timesteps 0 (first_state ext g) (episode_begin ext g)")
    (simp add: episode_eq)

lemma stub_wrong_action_step_loop:
  "fst (step_loop stub_wrong_action max_num_timesteps 0 [0] (episode_begin stub_wrong_action start)) =
     Inl InvalidArgumentError"
  unfolding max_num_timesteps_def
  by (simp add: step_loop_pos time_step_eq learning_step_eq before_learning_def
      step_experience_def step_outcome_def step_action_def
      stub_wrong_action_def stub_def episode_begin_def start_def deque_append_def MEMORY_SIZE_def
      check_update_conditions_def NUM_STEPS_FOR_UPDATE_def
      sample_def draw_distinct_def unzip_experiences_def agent_learn_eq
      compute_loss_def and_then_def call_model_def read_global_def eval_expr_def return_val_def
      reduce_max_def row_max_def elementwise_def stack_axis1_def tf_range_def cast_int32_def
      INT32_MIN_def gather_nd_def gather_at_def f32_def F32_OVERFLOW_def fl_sub_def)

lemma stub_wrong_action_episode:
  "fst (episode stub_wrong_action start) = Inl InvalidArgumentError"
proof -
  have "first_state stub_wrong_action start = [0]"
    by (simp add: first_state_def stub_wrong_action_def stub_def)
  then show ?thesis
    using stub_wrong_action_step_loop by (intro episode_fails) simp
qed

lemma stub_no_reward_loop:
  "fst (episode_loop (stub 64 0) 2 start) = Inr () \<and>
   saved_models (snd (episode_loop (stub 64 0) 2 start)) = [] \<and>
   total_point_history (snd (episode_loop (stub 64 0) 2 start)) = [0, 0] \<and>
   av_latest_points (snd (episode_loop (stub 64 0) 2 start)) = 0"
  by (simp add: episode_loop_pos stub_episode_small and_then_def return_val_def
      moving_average_def start_def)

theorem moving_average_convergence_witness:
  "fst (episode (stub 64 200) start) = Inr True \<and>
   total_point_history (snd (episode (stub 64 200) start)) = [200] \<and>
   av_latest_points (snd (episode (stub 64 200) start)) = 200 / real (min 100 1) \<and>
   fst (episode stub_wrong_action start) = Inl InvalidArgumentError \<and>
   fst (step_loop stub_wrong_action max_num_timesteps 0 (first_state stub_wrong_action start)
          (episode_begin stub_wrong_action start)) = Inl InvalidArgumentError \<and>
   fst (episode_loop (stub 64 0) 2 start) = Inr () \<and>
   av_latest_points (snd (episode_loop (stub 64 0) 2 start)) = 0 \<and>
   saved_models (snd (episode_loop (stub 64 0) 2 start)) = [] \<and>
   length (total_point_history (snd (episode_loop (stub 64 0) 2 start))) = 2 \<and>
   fst (train (stub 64 200) start) = Inr () \<and>
   av_latest_points (snd (train (stub 64 200) start)) = 200 \<and>
   saved_models (snd (train (stub 64 200) start)) = [[0, 0]] \<and>
   total_point_history (snd (train (stub 64 200) start)) = [200]"
proof -
  let ?g1 = "snd (episode (stub 64 200) start)"
  let ?g2 = "snd (episode stub_wrong_action start)"
  let ?g3 = "snd (episode_loop (stub 64 0) 2 start)"
  let ?g4 = "snd (train (stub 64 200) start)"
  have ep: "episode (stub 64 200) start = (Inr True, ?g1)"
    and hist: "total_point_history ?g1 = [200]"
    by (simp_all add: stub_episode)
  from moving_average_convergence [of "stub 64 200" start True ?g1] ep
  have "av_latest_points ?g1 =
      sum_list (drop (length (total_point_history ?g1) - 100) (total_point_history ?g1)) /
        real (min 100 (length (total_point_history ?g1)))"
    by blast
  then have a: "av_latest_points ?g1 = 200 / real (min 100 1)"
    unfolding hist by simp
  have fails: "episode stub_wrong_action start = (Inl InvalidArgumentError, ?g2)"
    using stub_wrong_action_episode by (metis prod.collapse)
  from moving_average_convergence [of stub_wrong_action start _ _ InvalidArgumentError ?g2] fails
  have "step_loop stub_wrong_action max_num_timesteps 0 (first_state stub_wrong_action start)
      (episode_begin stub_wrong_action start) = (Inl InvalidArgumentError, ?g2)"
    by blast
  then have b: "fst (step_loop stub_wrong_action max_num_timesteps 0 (first_state stub_wrong_action start)
      (episode_begin stub_wrong_action start)) = Inl InvalidArgumentError"
    by simp
  have loop: "0 < (2::nat) \<and> episode_loop (stub 64 0) 2 start = (Inr (), ?g3)"
    and av3: "\<not> 200 \<le> av_latest_points ?g3"
    using stub_no_reward_loop by (simp_all add: prod_eq_iff)
  note third = moving_average_convergence [of "stub 64 0" start _ _ _ _ 2 "()" ?g3,
      THEN conjunct2, THEN conjunct2, THEN conjunct1]
  from mp [OF third loop] av3
  have "saved_models ?g3 = saved_models start \<and>
      length (total_point_history ?g3) = length (total_point_history start) + 2"
    by (simp only: if_False)
  then have c: "saved_models ?g3 = [] \<and> length (total_point_history ?g3) = 2"
    by (simp add: start_def)
  have tr: "train (stub 64 200) start = (Inr (), ?g4)"
    and av4: "200 \<le> av_latest_points ?g4"
    by (simp_all add: stub_train)
  have m4: "models ?g4 q_network = [0, 0]"
    unfolding stub_train by (simp add: start_def)
  note last = moving_average_convergence [of "stub 64 200" start _ _ _ _ _ "()" _ ?g4,
      THEN conjunct2, THEN conjunct2, THEN conjunct2, THEN conjunct2, THEN conjunct2,
      THEN conjunct2]
  from mp [OF last tr] av4
  have "saved_models ?g4 = models ?g4 q_network # saved_models start"
    by (simp only: if_True)
  then have d: "saved_models ?g4 = [[0, 0]]"
    unfolding m4 by (simp add: start_def)
  have e1: "fst (episode (stub 64 200) start) = Inr True"
    by (simp add: stub_episode)
  have e2: "fst (episode stub_wrong_action start) = Inl InvalidArgumentError"
    using stub_wrong_action_episode by simp
  have e3: "fst (episode_loop (stub 64 0) 2 start) = Inr ()"
    and e4: "av_latest_points ?g3 = 0"
    using stub_no_reward_loop by simp_all
  have e5: "fst (train (stub 64 200) start) = Inr ()"
    and e6: "av_latest_points ?g4 = 200"
    and e7: "total_point_history ?g4 = [200]"
    by (simp_all add: stub_train)
  from e1 hist a e2 b e3 e4 c e5 e6 d e7 show ?thesis
    by blast
qed

subsection \<open>The exploration rate decays geometrically down to its floor\<close>

lemma get_new_eps_funpow:
  "(get_new_eps ^^ k) 1 = max (1 / 100) ((995 / 1000) ^ k)"
proof (induction k)
  case 0
  show ?case by simp
next
  case (Suc k)
  have "(get_new_eps ^^ Suc k) 1 = max (1 / 100) (995 / 1000 * max (1 / 100) ((995 / 1000) ^ k))"
    by (simp add: Suc.IH get_new_eps_def EPSILON_MIN_def EPSILON_DECAY_def)
  also have "\<dots> = max (1 / 100) ((995 / 1000) ^ Suc k)"
    by (simp add: max_def)
  finally show ?case .
qed

lemma get_new_eps_floor: "1 / 100 \<le> (get_new_eps ^^ k) 1"
  by (simp add: get_new_eps_funpow)

lemma get_new_eps_decreasing: "(get_new_eps ^^ Suc k) 1 \<le> (get_new_eps ^^ k) 1"
proof -
  have "(995 / 1000 :: real) ^ Suc k \<le> (995 / 1000) ^ k"
    by (rule power_decreasing) simp_all
  then show ?thesis
    unfolding get_new_eps_funpow by (simp add: max_def)
qed

lemma episode_loop_epsilon:
  "episode_loop ext n g = (Inr u, g') \<Longrightarrow>
     epsilon g' = (get_new_eps ^^ length (loop_rewards ext n g)) (epsilon g)"
proof (induction n arbitrary: g)
  case 0
  then show ?case by (simp add: return_val_def)
next
  case (Suc n)
  obtain r1 g1 where ep: "episode ext g = (r1, g1)"
    by (cases "episode ext g")
  with Suc.prems obtain solved where r1: "r1 = Inr solved"
    by (cases r1) (simp_all add: and_then_def)
  note e1 = episode_Inr(4) [OF ep [unfolded r1]]
  show ?case
  proof (cases solved)
    case True
    with Suc.prems ep r1 have "epsilon g' = epsilon g1"
      by (auto simp: and_then_def save_model_def write_global_def)
    with e1 ep r1 True show ?thesis by simp
  next
    case False
    with Suc.prems ep r1 have "episode_loop ext n g1 = (Inr u, g')"
      by (simp add: and_then_def)
    from Suc.IH [OF this] e1 ep r1 False show ?thesis
      by (simp add: funpow_swap1)
  qed
qed

text \<open>
  Claim C5. The statements before the loops set \<open>epsilon\<close> to 1. An episode that
  completes replaces \<open>epsilon\<close> by \<open>max(0.01, 0.995 * epsilon)\<close>. Starting from 1, the
  value after \<open>k\<close> updates is \<open>max(0.01, 0.995 ^ k)\<close>, it is never below 0.01 and it
  never grows from one update to the next; in particular after 918 updates it is
  \<open>max(0.01, 0.995 ^ 918)\<close>. When a training run ends normally, \<open>epsilon\<close> is this
  value for \<open>k\<close> the number of entries of the history, one for every completed episode.
\<close>

theorem epsilon_decay:
  "epsilon (snd (initialise g)) = 1 \<and>
   (episode ext g = (Inr solved, g1) \<longrightarrow> epsilon g1 = max (1 / 100) (995 / 1000 * epsilon g)) \<and>
   (get_new_eps ^^ k) 1 = max (1 / 100) ((995 / 1000) ^ k) \<and>
   1 / 100 \<le> (get_new_eps ^^ k) 1 \<and>
   (get_new_eps ^^ Suc k) 1 \<le> (get_new_eps ^^ k) 1 \<and>
   (get_new_eps ^^ 918) 1 = max (1 / 100) ((995 / 1000) ^ 918) \<and>
   (train ext g = (Inr u, g4) \<longrightarrow>
      epsilon g4 = max (1 / 100) ((995 / 1000) ^ length (total_point_history g4)))"
proof -
  have i: "epsilon (snd (initialise g)) = 1"
    by (simp add: initialise_def write_global_def)
  have e: "episode ext g = (Inr solved, g1) \<longrightarrow> epsilon g1 = max (1 / 100) (995 / 1000 * epsilon g)"
    by (auto dest: episode_Inr(4) simp: get_new_eps_def EPSILON_MIN_def EPSILON_DECAY_def)
  have t: "train ext g = (Inr u, g4) \<longrightarrow>
      epsilon g4 = max (1 / 100) ((995 / 1000) ^ length (total_point_history g4))"
  proof
    assume "train ext g = (Inr u, g4)"
    then have loop: "episode_loop ext num_episodes (snd (initialise g)) = (Inr u, g4)"
      by (simp add: train_def and_then_def initialise_def write_global_def)
    have "length (total_point_history g4) = length (loop_rewards ext num_episodes (snd (initialise g)))"
      using episode_loop_history [OF loop] by (simp add: initialise_def write_global_def)
    with episode_loop_epsilon [OF loop] i
    show "epsilon g4 = max (1 / 100) ((995 / 1000) ^ length (total_point_history g4))"
      by (simp add: get_new_eps_funpow)
  qed
  from i e t get_new_eps_funpow [of k] get_new_eps_floor [of k] get_new_eps_decreasing [of k]
    get_new_eps_funpow [of 918]
  show ?thesis by blast
qed

theorem epsilon_decay_witness:
  "epsilon (snd (episode (stub 64 200) start)) = 995 / 1000 \<and>
   epsilon (snd (train (stub 64 200) start)) = 995 / 1000 \<and>
   length (total_point_history (snd (train (stub 64 200) start))) = 1"
  using epsilon_decay [of start "stub 64 200" True "snd (episode (stub 64 200) start)" 1 "()"
      "snd (train (stub 64 200) start)"]
  by (simp add: stub_episode stub_train)


subsection \<open>When a time step learns\<close>

lemma time_step_no_update:
  assumes "\<not> update (before_learning ext t s g)"
  shows "time_step ext t s g =
      (Inr (step_outcome ext s g),
       (before_learning ext t s g)\<lparr>total_points := total_points g + fst (snd (step_outcome ext s g))\<rparr>)"
  using assms by (simp add: time_step_eq)

lemma time_step_update:
  assumes "update (before_learning ext t s g)"
  shows "time_step ext t s g =
      (case learning_step ext (before_learning ext t s g) of
         (Inl e, g2) \<Rightarrow> (Inl e, g2)
       | (Inr u, g2) \<Rightarrow>
           (Inr (step_outcome ext s g),
            g2\<lparr>total_points := total_points g2 + fst (snd (step_outcome ext s g))\<rparr>))"
  using assms by (simp add: time_step_eq)

text \<open>
  Claim C6. The loop index \<open>t\<close> counts the time steps of an episode from 0, so the step
  counter, incremented before the test, is \<open>t + 1\<close> at the time step \<open>t\<close>. At the test
  \<^verbatim>\<open>if update:\<close> of the time step \<open>t\<close>, \<open>update\<close> holds exactly when \<open>(t + 1) mod 4 = 0\<close>,
  that is at the time steps 3, 7, 11 and so on, and the buffer holds at least \<open>BATCH_SIZE\<close>
  experiences, and the time step leaves \<open>update\<close> at that value. When it holds, the time step runs the
  learning step, which samples a batch and calls \<open>agent_learn\<close> on it, and fails when
  the learning step fails. When it does not hold, the time step ends normally with the
  weights of both networks and the optimizer's state as they were. In both cases the
  loop over the time steps goes on with the next step, or ends when \<open>done\<close> is set.
\<close>

theorem learning_step_condition:
  "(update (before_learning ext t s g) \<longleftrightarrow>
      (t + 1) mod 4 = 0 \<and> BATCH_SIZE ext \<le> length (memory_buffer (before_learning ext t s g))) \<and>
   update (snd (time_step ext t s g)) = update (before_learning ext t s g) \<and>
   (update (before_learning ext t s g) \<longrightarrow>
      time_step ext t s g =
        (case learning_step ext (before_learning ext t s g) of
           (Inl e, g2) \<Rightarrow> (Inl e, g2)
         | (Inr u, g2) \<Rightarrow>
             (Inr (step_outcome ext s g),
              g2\<lparr>total_points := total_points g2 + fst (snd (step_outcome ext s g))\<rparr>))) \<and>
   learning_step ext g =
     (case sample (random_below ext) (BATCH_SIZE ext) (memory_buffer g) (rng g) of
        Inl e \<Rightarrow> (Inl e, g)
      | Inr (b, r') \<Rightarrow> agent_learn ext b GAMMA (g\<lparr>rng := r', experiences := b\<rparr>)) \<and>
   (\<not> update (before_learning ext t s g) \<longrightarrow>
      time_step ext t s g =
        (Inr (step_outcome ext s g),
         (before_learning ext t s g)\<lparr>total_points := total_points g + fst (snd (step_outcome ext s g))\<rparr>) \<and>
      models (snd (time_step ext t s g)) = models g \<and>
      optimizer (snd (time_step ext t s g)) = optimizer g) \<and>
   (0 < n \<longrightarrow>
      step_loop ext n t s g =
        (case time_step ext t s g of
           (Inl e, g1) \<Rightarrow> (Inl e, g1)
         | (Inr (s', r, d), g1) \<Rightarrow>
             if d then (Inr (), g1) else step_loop ext (n - 1) (Suc t) s' g1))"
proof -
  have c: "update (before_learning ext t s g) \<longleftrightarrow>
      (t + 1) mod 4 = 0 \<and> BATCH_SIZE ext \<le> length (memory_buffer (before_learning ext t s g))"
    by (simp add: check_update_conditions_def NUM_STEPS_FOR_UPDATE_def)
  have u: "update (snd (time_step ext t s g)) = update (before_learning ext t s g)"
    using time_step_frame(2) [of ext t s g] by (metis prod.collapse)
  have n: "\<not> update (before_learning ext t s g) \<longrightarrow>
      time_step ext t s g =
        (Inr (step_outcome ext s g),
         (before_learning ext t s g)\<lparr>total_points := total_points g + fst (snd (step_outcome ext s g))\<rparr>) \<and>
      models (snd (time_step ext t s g)) = models g \<and>
      optimizer (snd (time_step ext t s g)) = optimizer g"
    by (simp add: time_step_no_update)
  from c u n time_step_update [of ext t s g] learning_step_eq [of ext g] step_loop_pos [of n ext t s g]
  show ?thesis by blast
qed

lemma stub_fields:
  "forward (stub b rew) = (\<lambda>w s. [Fin 1, Fin 2, Fin 3, Fin 4])"
  "tape_gradient (stub b rew) = (\<lambda>f w. map (\<lambda>_. 1) w)"
  "apply_gradients (stub b rew) = (\<lambda>opt grads w. (opt, map2 (\<lambda>x dx. x - dx) w grads))"
  "random_below (stub b rew) = (\<lambda>n r. (r, Suc r))"
  "BATCH_SIZE (stub b rew) = b"
  "TAU (stub b rew) = 1 / 10"
  by (simp_all add: stub_def)

lemma stub_before_learning:
  "before_learning (stub b rew) t [0] start =
     start\<lparr>memory_buffer := [\<lparr>state = [0], action = 0, reward = rew, next_state = [0], done = True\<rparr>],
           update := ((t + 1) mod 4 = 0 \<and> b \<le> 1)\<rparr>"
  by (simp add: before_learning_def step_experience_def stub_step_outcome)
    (simp add: step_action_def stub_def start_def deque_append_def MEMORY_SIZE_def
      check_update_conditions_def NUM_STEPS_FOR_UPDATE_def)

lemma stub_compute_loss:
  "fst (compute_loss (\<lambda>w s. [Fin 1, Fin 2, Fin 3, Fin 4])
     ([[0]], [Fin 0], [Fin 200], [[0]], [Fin 1]) GAMMA q_network target_q_network g) =
     Inr (Fin 39601)"
  by (simp add: compute_loss_def and_then_def call_model_def read_global_def eval_expr_def
      return_val_def reduce_max_def row_max_def elementwise_def stack_axis1_def tf_range_def
      cast_int32_def INT32_MIN_def gather_nd_def gather_at_def MSE_def reduce_mean_def
      squared_difference_def fl_sub_def f32_def F32_OVERFLOW_def GAMMA_def)

lemma stub_learning_step:
  "learning_step (stub 1 200) (before_learning (stub 1 200) 3 [0] start) =
     (Inr (),
      start\<lparr>memory_buffer := [\<lparr>state = [0], action = 0, reward = 200, next_state = [0], done = True\<rparr>],
            update := True, rng := 1, experiences := ([[0]], [Fin 0], [Fin 200], [[0]], [Fin 1]),
            models := (\<lambda>m. [0, 0])(q_network := [- 1, - 1], target_q_network := [- (1 / 10), - (1 / 10)])\<rparr>)"
  unfolding stub_before_learning learning_step_eq
  by (simp add: sample_def draw_distinct_def unzip_experiences_def f32_def F32_OVERFLOW_def
      start_def agent_learn_eq stub_fields stub_compute_loss soft_update_def)

theorem learning_step_condition_witness:
  "update (before_learning (stub 1 200) 3 [0] start) \<and>
   fst (time_step (stub 1 200) 3 [0] start) = Inr ([0], 200, True) \<and>
   models (snd (time_step (stub 1 200) 3 [0] start)) q_network = [- 1, - 1] \<and>
   models (snd (time_step (stub 1 200) 3 [0] start)) target_q_network = [- (1 / 10), - (1 / 10)] \<and>
   \<not> update (before_learning (stub 1 200) 0 [0] start) \<and>
   models (snd (time_step (stub 1 200) 0 [0] start)) = models start \<and>
   \<not> update (before_learning (stub 64 200) 3 [0] start) \<and>
   models (snd (time_step (stub 64 200) 3 [0] start)) = models start \<and>
   fst (step_loop (stub 64 200) max_num_timesteps 3 [0] start) = Inr ()"
proof -
  have u0: "update (before_learning (stub 1 200) 3 [0] start)"
    by (simp add: stub_before_learning)
  have u1: "\<not> update (before_learning (stub 1 200) 0 [0] start)"
    by (simp add: stub_before_learning)
  have u2: "\<not> update (before_learning (stub 64 200) 3 [0] start)"
    by (simp add: stub_before_learning)
  have pos: "0 < max_num_timesteps"
    by (simp add: max_num_timesteps_def)
  from learning_step_condition [of "stub 1 200" 3 "[0]" start max_num_timesteps] u0
  have "time_step (stub 1 200) 3 [0] start =
      (case learning_step (stub 1 200) (before_learning (stub 1 200) 3 [0] start) of
         (Inl e, g2) \<Rightarrow> (Inl e, g2)
       | (Inr u, g2) \<Rightarrow>
           (Inr (step_outcome (stub 1 200) [0] start),
            g2\<lparr>total_points := total_points g2 + fst (snd (step_outcome (stub 1 200) [0] start))\<rparr>))"
    by blast
  from this [unfolded stub_learning_step]
  have a: "fst (time_step (stub 1 200) 3 [0] start) = Inr ([0], 200, True) \<and>
      models (snd (time_step (stub 1 200) 3 [0] start)) q_network = [- 1, - 1] \<and>
      models (snd (time_step (stub 1 200) 3 [0] start)) target_q_network = [- (1 / 10), - (1 / 10)]"
    by (simp add: stub_step_outcome)
  from learning_step_condition [of "stub 1 200" 0 "[0]" start max_num_timesteps] u1
  have b: "models (snd (time_step (stub 1 200) 0 [0] start)) = models start"
    by blast
  from learning_step_condition [of "stub 64 200" 3 "[0]" start max_num_timesteps] u2 pos
  have "models (snd (time_step (stub 64 200) 3 [0] start)) = models start"
    and "time_step (stub 64 200) 3 [0] start =
        (Inr (step_outcome (stub 64 200) [0] start),
         (before_learning (stub 64 200) 3 [0] start)
           \<lparr>total_points := total_points start + fst (snd (step_outcome (stub 64 200) [0] start))\<rparr>)"
    and "step_loop (stub 64 200) max_num_timesteps 3 [0] start =
        (case time_step (stub 64 200) 3 [0] start of
           (Inl e, g1) \<Rightarrow> (Inl e, g1)
         | (Inr (s', r, d), g1) \<Rightarrow>
             if d then (Inr (), g1) else step_loop (stub 64 200) (max_num_timesteps - 1) (Suc 3) s' g1)"
    by blast+
  then have c: "models (snd (time_step (stub 64 200) 3 [0] start)) = models start \<and>
      fst (step_loop (stub 64 200) max_num_timesteps 3 [0] start) = Inr ()"
    by (simp add: stub_step_outcome)
  from u0 u1 u2 a b c show ?thesis by blast
qed


subsection \<open>The new experience is in the buffer before the update check\<close>

lemma deque_append_last:
  "0 < n \<Longrightarrow> deque_append n d x \<noteq> [] \<and> last (deque_append n d x) = x"
  by (cases d) (auto simp: deque_append_def Let_def last_tl)

lemma learning_step_experiences:
  assumes "BATCH_SIZE ext \<le> length (memory_buffer g)"
  shows "experiences (snd (learning_step ext g)) =
     unzip_experiences (map (\<lambda>i. memory_buffer g ! i) (sampled_positions ext g))"
proof -
  obtain ps r' where d: "draw_distinct (random_below ext) (BATCH_SIZE ext)
      [0..<length (memory_buffer g)] (rng g) = (ps, r')"
    by (cases "draw_distinct (random_below ext) (BATCH_SIZE ext) [0..<length (memory_buffer g)] (rng g)")
  let ?b = "unzip_experiences (map (\<lambda>i. memory_buffer g ! i) ps)"
  from assms d have "learning_step ext g = agent_learn ext ?b GAMMA (g\<lparr>rng := r', experiences := ?b\<rparr>)"
    by (simp add: learning_step_eq sample_def)
  moreover have "experiences (snd (agent_learn ext ?b GAMMA (g\<lparr>rng := r', experiences := ?b\<rparr>))) = ?b"
  proof -
    obtain res g2 where al: "agent_learn ext ?b GAMMA (g\<lparr>rng := r', experiences := ?b\<rparr>) = (res, g2)"
      by (cases "agent_learn ext ?b GAMMA (g\<lparr>rng := r', experiences := ?b\<rparr>)")
    from agent_learn_frame(7) [OF al] al show ?thesis by simp
  qed
  ultimately show ?thesis
    using d by (simp add: sampled_positions_def)
qed

lemma time_step_experiences:
  assumes "update (before_learning ext t s g)"
  shows "experiences (snd (time_step ext t s g)) =
     unzip_experiences (map (\<lambda>i. memory_buffer (before_learning ext t s g) ! i)
       (sampled_positions ext (before_learning ext t s g)))"
proof -
  from assms have "BATCH_SIZE ext \<le> length (memory_buffer (before_learning ext t s g))"
    by (simp add: check_update_conditions_def)
  from learning_step_experiences [OF this]
  have "experiences (snd (learning_step ext (before_learning ext t s g))) =
     unzip_experiences (map (\<lambda>i. memory_buffer (before_learning ext t s g) ! i)
       (sampled_positions ext (before_learning ext t s g)))" .
  moreover have "experiences (snd (time_step ext t s g)) =
      experiences (snd (learning_step ext (before_learning ext t s g)))"
    using assms by (simp add: time_step_update split: prod.splits sum.splits)
  ultimately show ?thesis by simp
qed

text \<open>
  Claim C9. When a time step reaches the test \<^verbatim>\<open>if update:\<close>, the buffer is the old
  buffer with the experience of this very step appended: that experience, made of the
  current state, the chosen action and the reward, next state and \<open>done\<close> flag that
  \<^verbatim>\<open>env.step\<close> returned, is the last element of the buffer, whether \<open>done\<close> is set or
  not. The update condition is evaluated on this buffer, a learning step samples its
  batch from this buffer, and the buffer is the same when the time step ends. The loop
  over the time steps tests \<open>done\<close> only after the time step has ended.
\<close>

theorem experience_stored_before_update:
  "memory_buffer (before_learning ext t s g) =
     deque_append MEMORY_SIZE (memory_buffer g) (step_experience ext s g) \<and>
   memory_buffer (before_learning ext t s g) \<noteq> [] \<and>
   last (memory_buffer (before_learning ext t s g)) = step_experience ext s g \<and>
   step_experience ext s g =
     \<lparr>state = s, action = step_action ext s g, reward = fst (snd (step_outcome ext s g)),
      next_state = fst (step_outcome ext s g), done = snd (snd (step_outcome ext s g))\<rparr> \<and>
   (update (before_learning ext t s g) \<longleftrightarrow>
      check_update_conditions t NUM_STEPS_FOR_UPDATE (memory_buffer (before_learning ext t s g))
        (BATCH_SIZE ext)) \<and>
   time_step ext t s g =
     (if update (before_learning ext t s g)
      then (case learning_step ext (before_learning ext t s g) of
              (Inl e, g2) \<Rightarrow> (Inl e, g2)
            | (Inr u, g2) \<Rightarrow>
                (Inr (step_outcome ext s g),
                 g2\<lparr>total_points := total_points g2 + fst (snd (step_outcome ext s g))\<rparr>))
      else (Inr (step_outcome ext s g),
            (before_learning ext t s g)
              \<lparr>total_points := total_points g + fst (snd (step_outcome ext s g))\<rparr>)) \<and>
   (update (before_learning ext t s g) \<longrightarrow>
      experiences (snd (time_step ext t s g)) =
        unzip_experiences (map (\<lambda>i. memory_buffer (before_learning ext t s g) ! i)
          (sampled_positions ext (before_learning ext t s g)))) \<and>
   memory_buffer (snd (time_step ext t s g)) = memory_buffer (before_learning ext t s g) \<and>
   (0 < n \<longrightarrow>
      step_loop ext n t s g =
        (case time_step ext t s g of
           (Inl e, g1) \<Rightarrow> (Inl e, g1)
         | (Inr (s', r, d), g1) \<Rightarrow>
             if d then (Inr (), g1) else step_loop ext (n - 1) (Suc t) s' g1))"
proof -
  have pos: "0 < MEMORY_SIZE" by (simp add: MEMORY_SIZE_def)
  have a: "memory_buffer (before_learning ext t s g) =
     deque_append MEMORY_SIZE (memory_buffer g) (step_experience ext s g)"
    by simp
  have b: "memory_buffer (before_learning ext t s g) \<noteq> [] \<and>
     last (memory_buffer (before_learning ext t s g)) = step_experience ext s g"
    using deque_append_last [OF pos] by simp
  have c: "step_experience ext s g =
     \<lparr>state = s, action = step_action ext s g, reward = fst (snd (step_outcome ext s g)),
      next_state = fst (step_outcome ext s g), done = snd (snd (step_outcome ext s g))\<rparr>"
    by (simp add: step_experience_def split_beta)
  have d: "update (before_learning ext t s g) \<longleftrightarrow>
      check_update_conditions t NUM_STEPS_FOR_UPDATE (memory_buffer (before_learning ext t s g))
        (BATCH_SIZE ext)"
    by simp
  have e: "memory_buffer (snd (time_step ext t s g)) = memory_buffer (before_learning ext t s g)"
    using time_step_frame(1) [of ext t s g] by (metis prod.collapse)
  from a b c d e time_step_eq [of ext t s g] time_step_experiences [of ext t s g]
    step_loop_pos [of n ext t s g]
  show ?thesis by blast
qed

theorem experience_stored_before_update_witness:
  "update (before_learning (stub 1 200) 3 [0] start) \<and>
   memory_buffer (before_learning (stub 1 200) 3 [0] start) =
     [\<lparr>state = [0], action = 0, reward = 200, next_state = [0], done = True\<rparr>] \<and>
   sampled_positions (stub 1 200) (before_learning (stub 1 200) 3 [0] start) = [0] \<and>
   experiences (snd (time_step (stub 1 200) 3 [0] start)) = ([[0]], [Fin 0], [Fin 200], [[0]], [Fin 1]) \<and>
   fst (step_loop (stub 1 200) max_num_timesteps 3 [0] start) = Inr ()"
proof -
  have u0: "update (before_learning (stub 1 200) 3 [0] start)"
    by (simp add: stub_before_learning)
  have buf: "memory_buffer (before_learning (stub 1 200) 3 [0] start) =
     [\<lparr>state = [0], action = 0, reward = 200, next_state = [0], done = True\<rparr>]"
    unfolding stub_before_learning by simp
  have ps: "sampled_positions (stub 1 200) (before_learning (stub 1 200) 3 [0] start) = [0]"
    unfolding sampled_positions_def stub_before_learning
    by (simp add: stub_fields start_def draw_distinct_def)
  have pos: "0 < max_num_timesteps"
    by (simp add: max_num_timesteps_def)
  note inst = experience_stored_before_update [of "stub 1 200" 3 "[0]" start max_num_timesteps]
  from inst u0 have "experiences (snd (time_step (stub 1 200) 3 [0] start)) =
        unzip_experiences (map (\<lambda>i. memory_buffer (before_learning (stub 1 200) 3 [0] start) ! i)
          (sampled_positions (stub 1 200) (before_learning (stub 1 200) 3 [0] start)))"
    by blast
  then have ex: "experiences (snd (time_step (stub 1 200) 3 [0] start)) = ([[0]], [Fin 0], [Fin 200], [[0]], [Fin 1])"
    unfolding ps buf by (simp add: unzip_experiences_def f32_def F32_OVERFLOW_def)
  from inst u0 pos have "time_step (stub 1 200) 3 [0] start =
      (case learning_step (stub 1 200) (before_learning (stub 1 200) 3 [0] start) of
         (Inl e, g2) \<Rightarrow> (Inl e, g2)
       | (Inr u, g2) \<Rightarrow>
           (Inr (step_outcome (stub 1 200) [0] start),
            g2\<lparr>total_points := total_points g2 + fst (snd (step_outcome (stub 1 200) [0] start))\<rparr>))"
    and loop: "step_loop (stub 1 200) max_num_timesteps 3 [0] start =
        (case time_step (stub 1 200) 3 [0] start of
           (Inl e, g1) \<Rightarrow> (Inl e, g1)
         | (Inr (s', r, d), g1) \<Rightarrow>
             if d then (Inr (), g1) else step_loop (stub 1 200) (max_num_timesteps - 1) (Suc 3) s' g1)"
    by simp_all
  from this(1) [unfolded stub_learning_step]
  have "fst (time_step (stub 1 200) 3 [0] start) = Inr ([0], 200, True)"
    by (simp add: stub_step_outcome)
  with loop have "fst (step_loop (stub 1 200) max_num_timesteps 3 [0] start) = Inr ()"
    by (cases "time_step (stub 1 200) 3 [0] start") simp
  with u0 buf ps ex show ?thesis by blast
qed


subsection \<open>Sampling from the buffer\<close>


















subsection \<open>The target network trails the primary network\<close>

lemma soft_update_nth:
  "i < length p \<Longrightarrow> i < length t \<Longrightarrow> soft_update tau p t ! i = tau * p ! i + (1 - tau) * t ! i"
  by (simp add: soft_update_def)

lemma soft_update_length: "length (soft_update tau p t) = min (length p) (length t)"
  by (simp add: soft_update_def)

lemma soft_update_copy: "length t = length p \<Longrightarrow> soft_update 1 p t = p"
  by (rule nth_equalityI) (simp_all add: soft_update_def)

lemma soft_update_between:
  assumes "0 \<le> tau" and "tau \<le> 1"
  shows "min x y \<le> tau * x + (1 - tau) * (y::real)" and "tau * x + (1 - tau) * y \<le> max x y"
proof -
  have a: "tau * x + (1 - tau) * y = y + tau * (x - y)"
    by algebra
  have b: "tau * x + (1 - tau) * y = x + (1 - tau) * (y - x)"
    by algebra
  show "min x y \<le> tau * x + (1 - tau) * y"
  proof (cases "x \<le> y")
    case True
    with assms have "0 \<le> (1 - tau) * (y - x)" by simp
    with True show ?thesis unfolding b by simp
  next
    case False
    with assms have "0 \<le> tau * (x - y)" by simp
    with False show ?thesis unfolding a by simp
  qed
  show "tau * x + (1 - tau) * y \<le> max x y"
  proof (cases "x \<le> y")
    case True
    with assms have "tau * (x - y) \<le> 0" by (simp add: mult_nonneg_nonpos)
    with True show ?thesis unfolding a by simp
  next
    case False
    with assms have "(1 - tau) * (y - x) \<le> 0" by (simp add: mult_nonneg_nonpos)
    with False show ?thesis unfolding b by simp
  qed
qed

lemma agent_learn_target:
  assumes "agent_learn ext b gamma g = (Inr u, g1)"
  shows "models g1 target_q_network =
      soft_update (TAU ext) (models g1 q_network) (models g target_q_network)"
  using assms by (auto simp: agent_learn_eq Let_def split: sum.splits)

lemma weighted_sum_trailing:
  "length xs = n \<Longrightarrow>
     weighted_sum (trailing_weights tau n) (x0 # xs) =
       (1 - tau) ^ n * x0 + (\<Sum>k<n. tau * (1 - tau) ^ (n - 1 - k) * xs ! k)"
proof -
  assume len: "length xs = n"
  have "zip (map (\<lambda>k. tau * (1 - tau) ^ (n - 1 - k)) [0..<n]) xs =
        map (\<lambda>k. (tau * (1 - tau) ^ (n - 1 - k), xs ! k)) [0..<n]"
    using len by (intro nth_equalityI) simp_all
  then have "weighted_sum (trailing_weights tau n) (x0 # xs) =
      (1 - tau) ^ n * x0 + (\<Sum>k\<leftarrow>[0..<n]. tau * (1 - tau) ^ (n - 1 - k) * xs ! k)"
    by (simp add: weighted_sum_def trailing_weights_def o_def)
  also have "(\<Sum>k\<leftarrow>[0..<n]. tau * (1 - tau) ^ (n - 1 - k) * xs ! k) =
      (\<Sum>k<n. tau * (1 - tau) ^ (n - 1 - k) * xs ! k)"
    by (simp add: interv_sum_list_conv_sum_set_nat atLeast0LessThan)
  finally show ?thesis .
qed

lemma trailing_weights_sum: "sum_list (trailing_weights tau n) = 1"
proof -
  have "(\<Sum>k\<leftarrow>[0..<n]. tau * (1 - tau) ^ (n - 1 - k)) = 1 - (1 - tau) ^ n"
  proof (induction n)
    case 0
    show ?case by simp
  next
    case (Suc n)
    have "(\<Sum>k\<leftarrow>[0..<Suc n]. tau * (1 - tau) ^ (Suc n - 1 - k)) =
        (\<Sum>k\<leftarrow>[0..<n]. tau * (1 - tau) ^ (n - k)) + tau"
      by simp
    also have "(\<Sum>k\<leftarrow>[0..<n]. tau * (1 - tau) ^ (n - k)) =
        (\<Sum>k\<leftarrow>[0..<n]. (1 - tau) * (tau * (1 - tau) ^ (n - 1 - k)))"
    proof (rule arg_cong [where f = sum_list], rule map_cong [OF refl])
      fix k assume "k \<in> set [0..<n]"
      then have "n - k = Suc (n - 1 - k)" by auto
      then show "tau * (1 - tau) ^ (n - k) = (1 - tau) * (tau * (1 - tau) ^ (n - 1 - k))"
        by simp
    qed
    also have "\<dots> = (1 - tau) * (\<Sum>k\<leftarrow>[0..<n]. tau * (1 - tau) ^ (n - 1 - k))"
      by (simp add: sum_list_const_mult)
    also have "\<dots> = (1 - tau) * (1 - (1 - tau) ^ n)"
      by (simp only: Suc.IH)
    finally show ?case by (simp add: algebra_simps)
  qed
  moreover have "sum_list (trailing_weights tau n) =
      (1 - tau) ^ n + (\<Sum>k\<leftarrow>[0..<n]. tau * (1 - tau) ^ (n - 1 - k))"
    by (simp only: trailing_weights_def sum_list.Cons)
  ultimately show ?thesis by linarith
qed

lemma trailing_weights_nonneg:
  "0 \<le> tau \<Longrightarrow> tau \<le> 1 \<Longrightarrow> c \<in> set (trailing_weights tau n) \<Longrightarrow> 0 \<le> c"
  by (auto simp: trailing_weights_def)

lemma primary_trace_length:
  "learn_all ext bs g = (Inr u, g') \<Longrightarrow> length (primary_trace ext bs g) = length bs"
proof (induction bs arbitrary: g)
  case Nil
  show ?case by simp
next
  case (Cons b bs)
  obtain r1 g1 where al: "agent_learn ext b GAMMA g = (r1, g1)"
    by (cases "agent_learn ext b GAMMA g")
  with Cons.prems obtain v where r1: "r1 = Inr v"
    by (cases r1) (simp_all add: and_then_def)
  with Cons.prems al have "learn_all ext bs g1 = (Inr u, g')"
    by (simp add: and_then_def)
  from Cons.IH [OF this] al r1 show ?case by simp
qed

lemma learn_all_target:
  assumes "learn_all ext bs g = (Inr u, g')"
    and "\<forall>w\<in>set (primary_trace ext bs g). length w = length (models g target_q_network)"
    and "i < length (models g target_q_network)"
  shows "models g' target_q_network ! i =
      (1 - TAU ext) ^ length bs * models g target_q_network ! i +
      (\<Sum>k<length bs. TAU ext * (1 - TAU ext) ^ (length bs - 1 - k) * primary_trace ext bs g ! k ! i)"
  using assms
proof (induction bs arbitrary: g)
  case Nil
  then show ?case by (simp add: return_val_def)
next
  case (Cons b bs)
  let ?tau = "TAU ext" and ?m = "length bs"
  obtain r1 g1 where al: "agent_learn ext b GAMMA g = (r1, g1)"
    by (cases "agent_learn ext b GAMMA g")
  with Cons.prems(1) obtain v where r1: "r1 = Inr v"
    by (cases r1) (simp_all add: and_then_def)
  with Cons.prems(1) al have rest: "learn_all ext bs g1 = (Inr u, g')"
    by (simp add: and_then_def)
  have trace: "primary_trace ext (b # bs) g = models g1 q_network # primary_trace ext bs g1"
    using al r1 by simp
  have t1: "models g1 target_q_network =
      soft_update ?tau (models g1 q_network) (models g target_q_network)"
    using al r1 by (simp add: agent_learn_target)
  have lq: "length (models g1 q_network) = length (models g target_q_network)"
    using Cons.prems(2) unfolding trace by simp
  then have lt: "length (models g1 target_q_network) = length (models g target_q_network)"
    by (simp add: t1 soft_update_length)
  have step: "models g1 target_q_network ! i =
      ?tau * models g1 q_network ! i + (1 - ?tau) * models g target_q_network ! i"
    using Cons.prems(3) lq by (simp add: t1 soft_update_nth)
  have "models g' target_q_network ! i =
      (1 - ?tau) ^ ?m * models g1 target_q_network ! i +
      (\<Sum>k<?m. ?tau * (1 - ?tau) ^ (?m - 1 - k) * primary_trace ext bs g1 ! k ! i)"
  proof (rule Cons.IH [OF rest])
    show "\<forall>w\<in>set (primary_trace ext bs g1). length w = length (models g1 target_q_network)"
      using Cons.prems(2) unfolding trace lt by simp
    show "i < length (models g1 target_q_network)"
      using Cons.prems(3) lt by simp
  qed
  also have "\<dots> =
      (1 - ?tau) ^ Suc ?m * models g target_q_network ! i +
      (?tau * (1 - ?tau) ^ ?m * models g1 q_network ! i +
       (\<Sum>k<?m. ?tau * (1 - ?tau) ^ (?m - 1 - k) * primary_trace ext bs g1 ! k ! i))"
    by (simp add: step algebra_simps)
  also have "?tau * (1 - ?tau) ^ ?m * models g1 q_network ! i +
       (\<Sum>k<?m. ?tau * (1 - ?tau) ^ (?m - 1 - k) * primary_trace ext bs g1 ! k ! i) =
      (\<Sum>k<Suc ?m. ?tau * (1 - ?tau) ^ (Suc ?m - 1 - k) * primary_trace ext (b # bs) g ! k ! i)"
    unfolding trace sum.lessThan_Suc_shift by simp
  finally show ?case by simp
qed

text \<open>
  Claim C4. The statements before the loops copy the primary weights into the target
  network, which is what the soft update with \<open>tau = 1\<close> does. A learning step that
  succeeds leaves the target weights at the soft update of the old target weights
  towards the primary weights it has just updated: element by element,
  \<open>tau * primary + (1 - tau) * target\<close>, a value between the two when \<open>0 \<le> tau \<le> 1\<close>.
  Consequently, after any sequence of learning steps that starts with equal weights,
  every target weight is the trailing average of the values the primary weight had at
  the start and after each learning step, with weights that are not negative (for
  \<open>0 \<le> tau \<le> 1\<close>) and sum to 1.
\<close>

theorem target_network_trails_primary:
  "models (snd (initialise g)) target_q_network = models g q_network \<and>
   models (snd (initialise g)) q_network = models g q_network \<and>
   (length t = length p \<longrightarrow> soft_update 1 p t = p) \<and>
   (agent_learn ext b gamma g = (Inr u, g1) \<longrightarrow>
      models g1 target_q_network =
        soft_update (TAU ext) (models g1 q_network) (models g target_q_network)) \<and>
   (i < length p \<and> i < length t \<longrightarrow>
      soft_update tau p t ! i = tau * p ! i + (1 - tau) * t ! i) \<and>
   length (soft_update tau p t) = min (length p) (length t) \<and>
   (0 \<le> tau \<and> tau \<le> 1 \<and> i < length p \<and> i < length t \<longrightarrow>
      min (p ! i) (t ! i) \<le> soft_update tau p t ! i \<and>
      soft_update tau p t ! i \<le> max (p ! i) (t ! i)) \<and>
   (learn_all ext bs g = (Inr u, g2) \<and>
    models g target_q_network = models g q_network \<and>
    (\<forall>w\<in>set (primary_trace ext bs g). length w = length (models g q_network)) \<and>
    j < length (models g q_network) \<longrightarrow>
      models g2 target_q_network ! j =
        weighted_sum (trailing_weights (TAU ext) (length bs))
          (models g q_network ! j # map (\<lambda>w. w ! j) (primary_trace ext bs g))) \<and>
   sum_list (trailing_weights tau n) = 1 \<and>
   (0 \<le> tau \<and> tau \<le> 1 \<longrightarrow> (\<forall>c\<in>set (trailing_weights tau n). 0 \<le> c))"
proof -
  have a: "models (snd (initialise g)) target_q_network = models g q_network \<and>
      models (snd (initialise g)) q_network = models g q_network"
    by (simp add: initialise_def write_global_def)
  have c: "0 \<le> tau \<and> tau \<le> 1 \<and> i < length p \<and> i < length t \<longrightarrow>
      min (p ! i) (t ! i) \<le> soft_update tau p t ! i \<and>
      soft_update tau p t ! i \<le> max (p ! i) (t ! i)"
    by (simp add: soft_update_nth soft_update_between)
  have d: "learn_all ext bs g = (Inr u, g2) \<and>
    models g target_q_network = models g q_network \<and>
    (\<forall>w\<in>set (primary_trace ext bs g). length w = length (models g q_network)) \<and>
    j < length (models g q_network) \<longrightarrow>
      models g2 target_q_network ! j =
        weighted_sum (trailing_weights (TAU ext) (length bs))
          (models g q_network ! j # map (\<lambda>w. w ! j) (primary_trace ext bs g))"
  proof
    assume h: "learn_all ext bs g = (Inr u, g2) \<and>
      models g target_q_network = models g q_network \<and>
      (\<forall>w\<in>set (primary_trace ext bs g). length w = length (models g q_network)) \<and>
      j < length (models g q_network)"
    then have run: "learn_all ext bs g = (Inr u, g2)"
      and eq: "models g target_q_network = models g q_network"
      and len: "\<forall>w\<in>set (primary_trace ext bs g). length w = length (models g target_q_network)"
      and j: "j < length (models g target_q_network)"
      by simp_all
    note n = primary_trace_length [OF run]
    have "models g2 target_q_network ! j =
      (1 - TAU ext) ^ length bs * models g target_q_network ! j +
      (\<Sum>k<length bs. TAU ext * (1 - TAU ext) ^ (length bs - 1 - k) * primary_trace ext bs g ! k ! j)"
      by (rule learn_all_target [OF run len j])
    also have "\<dots> =
      (1 - TAU ext) ^ length bs * models g q_network ! j +
      (\<Sum>k<length bs. TAU ext * (1 - TAU ext) ^ (length bs - 1 - k) *
          map (\<lambda>w. w ! j) (primary_trace ext bs g) ! k)"
      using n by (simp add: eq)
    also have "\<dots> = weighted_sum (trailing_weights (TAU ext) (length bs))
          (models g q_network ! j # map (\<lambda>w. w ! j) (primary_trace ext bs g))"
      using n by (simp add: weighted_sum_trailing)
    finally show "models g2 target_q_network ! j =
        weighted_sum (trailing_weights (TAU ext) (length bs))
          (models g q_network ! j # map (\<lambda>w. w ! j) (primary_trace ext bs g))" .
  qed
  have e: "0 \<le> tau \<and> tau \<le> 1 \<longrightarrow> (\<forall>c\<in>set (trailing_weights tau n). 0 \<le> c)"
    using trailing_weights_nonneg [of tau _ n] by blast
  from a c d e soft_update_copy [of t p] agent_learn_target [of ext b gamma g u g1]
    soft_update_nth [of i p t tau] soft_update_length [of tau p t] trailing_weights_sum [of tau n]
  show ?thesis by blast
qed

lemma stub_agent_learn:
  "agent_learn (stub b rew) ([[0]], [Fin 0], [Fin 200], [[0]], [Fin 1]) GAMMA g =
     (Inr (),
      g\<lparr>optimizer := optimizer g,
        models := (models g)
          (q_network := map2 (\<lambda>x dx. x - dx) (models g q_network) (map (\<lambda>_. 1) (models g q_network)),
           target_q_network := soft_update (1 / 10)
             (map2 (\<lambda>x dx. x - dx) (models g q_network) (map (\<lambda>_. 1) (models g q_network)))
             (models g target_q_network))\<rparr>)"
  by (simp add: agent_learn_eq stub_fields stub_compute_loss Let_def)

theorem target_network_trails_primary_witness:
  "soft_update 1 [1, 2] [3, 4] = [1, 2] \<and>
   soft_update (1 / 10) [10] [0] ! 0 = 1 \<and>
   fst (learn_all (stub 64 200) [([[0]], [Fin 0], [Fin 200], [[0]], [Fin 1]), ([[0]], [Fin 0], [Fin 200], [[0]], [Fin 1])] start) = Inr () \<and>
   primary_trace (stub 64 200) [([[0]], [Fin 0], [Fin 200], [[0]], [Fin 1]), ([[0]], [Fin 0], [Fin 200], [[0]], [Fin 1])] start =
     [[- 1, - 1], [- 2, - 2]] \<and>
   models (snd (learn_all (stub 64 200)
       [([[0]], [Fin 0], [Fin 200], [[0]], [Fin 1]), ([[0]], [Fin 0], [Fin 200], [[0]], [Fin 1])] start)) target_q_network ! 0 =
     weighted_sum (trailing_weights (1 / 10) 2) [0, - 1, - 2] \<and>
   weighted_sum (trailing_weights (1 / 10) 2) [0, - 1, - 2] = - (29 / 100) \<and>
   trailing_weights (1 / 10) 2 = [81 / 100, 9 / 100, 1 / 10]"
proof -
  let ?b = "([[0]], [Fin 0], [Fin 200], [[0]], [Fin 1]) :: batch"
  let ?ext = "stub 64 200"
  have run: "fst (learn_all ?ext [?b, ?b] start) = Inr ()"
    by (simp add: and_then_def stub_agent_learn return_val_def)
  have trace: "primary_trace ?ext [?b, ?b] start = [[- 1, - 1], [- 2, - 2]]"
    by (simp add: stub_agent_learn start_def)
  have tw: "trailing_weights (1 / 10) 2 = [81 / 100, 9 / 100, 1 / 10]"
    by (simp add: trailing_weights_def upt_rec numeral_2_eq_2 power2_eq_square)
  have ws: "weighted_sum (trailing_weights (1 / 10) 2) [0, - 1, - 2] = - (29 / 100)"
    unfolding tw by (simp add: weighted_sum_def)
  have tau: "TAU ?ext = 1 / 10"
    by (simp add: stub_fields)
  have hyp: "learn_all ?ext [?b, ?b] start = (Inr (), snd (learn_all ?ext [?b, ?b] start)) \<and>
      models start target_q_network = models start q_network \<and>
      (\<forall>w\<in>set (primary_trace ?ext [?b, ?b] start). length w = length (models start q_network)) \<and>
      0 < length (models start q_network)"
    using run unfolding trace by (simp add: start_def prod_eq_iff)
  have "models (snd (learn_all ?ext [?b, ?b] start)) target_q_network ! 0 =
      weighted_sum (trailing_weights (TAU ?ext) (length [?b, ?b]))
        (models start q_network ! 0 # map (\<lambda>w. w ! 0) (primary_trace ?ext [?b, ?b] start))"
    using target_network_trails_primary [of start _ _ ?ext _ _ _ _ _ _ "[?b, ?b]"
        "snd (learn_all ?ext [?b, ?b] start)" 0] hyp
    by blast
  moreover have "length [?b, ?b] = 2"
    and "models start q_network ! 0 = 0"
    and "map (\<lambda>w. w ! 0) [[- 1, - 1], [- 2, - 2 :: real]] = [- 1, - 2]"
    by (simp_all add: start_def)
  ultimately have main: "models (snd (learn_all ?ext [?b, ?b] start)) target_q_network ! 0 =
      weighted_sum (trailing_weights (1 / 10) 2) [0, - 1, - 2]"
    unfolding trace tau by (simp only:)
  have copy: "soft_update 1 [1, 2] [3, 4] = [1, 2]"
    using target_network_trails_primary [of start "[3, 4]" "[1, 2]"] by simp
  have one: "soft_update (1 / 10) [10] [0] ! 0 = 1"
    using target_network_trails_primary [of start "[0]" "[10]" ?ext _ _ _ _ 0 "1 / 10"] by simp
  from copy one run trace main ws tw show ?thesis by blast
qed

end
